theory Spec2Isabelle
  imports Main
begin

section \<open>msgmux: a message multiplexer keyed by the message's runtime type\<close>

text \<open>
  The development embeds \<^verbatim>\<open>mux.go\<close> of package \<^verbatim>\<open>msgmux\<close>: the registry
  \<^verbatim>\<open>DispatchMux\<close>, registration (\<^verbatim>\<open>Handle\<close>), validation of a candidate handler
  (\<^verbatim>\<open>validateHandler\<close>), and dispatch (\<^verbatim>\<open>DispatchContext\<close>, \<^verbatim>\<open>Dispatch\<close>,
  \<^verbatim>\<open>invokeHandler\<close>).

  The code works through package \<^verbatim>\<open>reflect\<close>. The part of \<^verbatim>\<open>reflect\<close> it
  touches is modelled first: run-time type descriptors, values with a dynamic type, and
  \<^verbatim>\<open>Value.Call\<close>. A Go panic is a value of type \<open>panic\<close>; a function that can
  panic returns \<open>panic + 'a\<close> with \<open>Inl\<close> for the panic.
\<close>

subsection \<open>Run-time types (reflect.Type)\<close>

text \<open>The constants of \<^verbatim>\<open>reflect.Kind\<close>, in the order package reflect declares them.\<close>

datatype Kind =
    KInvalid | KBool
  | KInt | KInt8 | KInt16 | KInt32 | KInt64
  | KUint | KUint8 | KUint16 | KUint32 | KUint64 | KUintptr
  | KFloat32 | KFloat64 | KComplex64 | KComplex128
  | KArray | KChan | KFunc | KInterface | KMap | KPointer | KSlice | KString | KStruct
  | KUnsafePointer

text \<open>
  A type descriptor holds what the code reads from a \<^verbatim>\<open>reflect.Type\<close>:
  \<^verbatim>\<open>Kind()\<close>, \<^verbatim>\<open>Name()\<close> (empty for an unnamed type), \<^verbatim>\<open>PkgPath()\<close> (empty for a
  predeclared or unnamed type), the parameter and result types of a function type
  (\<^verbatim>\<open>In(i)\<close>, \<^verbatim>\<open>Out(i)\<close>), and the method set, each method as its name and its
  signature. Go compares \<^verbatim>\<open>reflect.Type\<close> values by identity, and the registry uses
  them as map keys; \<open>Ident\<close> is a token for what of a type's identity the other fields
  do not show (which of two declarations of one name in one package a type comes from,
  the element type of a pointer type), so that two descriptors are the same type exactly
  when they are equal.
\<close>

datatype rtype = RType
  (Kind: Kind) (Name: string) (PkgPath: string) (Ident: nat)
  (In: "rtype list") (Out: "rtype list")
  (Methods: "(string \<times> string) list")

definition NumIn :: "rtype \<Rightarrow> nat" where
  "NumIn t = length (In t)"

definition NumOut :: "rtype \<Rightarrow> nat" where
  "NumOut t = length (Out t)"

text \<open>
  \<^verbatim>\<open>t.Implements(u)\<close> for an interface type \<^verbatim>\<open>u\<close>: every method of \<^verbatim>\<open>u\<close> is in
  the method set of \<^verbatim>\<open>t\<close>.
\<close>

definition Implements :: "rtype \<Rightarrow> rtype \<Rightarrow> bool" where
  "Implements t u = (set (Methods u) \<subseteq> set (Methods t))"

text \<open>
  \<^verbatim>\<open>x.AssignableTo(t)\<close>, as far as \<^verbatim>\<open>Value.Call\<close> needs it here: a value of type
  \<^verbatim>\<open>x\<close> can be passed for a parameter of type \<^verbatim>\<open>t\<close> when the types are the same, or
  \<^verbatim>\<open>t\<close> is an interface type that \<^verbatim>\<open>x\<close> implements. (Go's further rule, identical
  underlying types when one of the two is unnamed, is left out: the model may then
  report a panic that Go does not raise, never the converse.)
\<close>

definition AssignableTo :: "rtype \<Rightarrow> rtype \<Rightarrow> bool" where
  "AssignableTo x t = (x = t \<or> (Kind t = KInterface \<and> Implements x t))"

text \<open>The predeclared \<^verbatim>\<open>error\<close>, \<^verbatim>\<open>string\<close> and the interface \<^verbatim>\<open>context.Context\<close>.\<close>

definition errorType :: rtype where
  "errorType = RType KInterface ''error'' '''' 0 [] [] [(''Error'', ''func() string'')]"

definition stringType :: rtype where
  "stringType = RType KString ''string'' '''' 0 [] [] []"

definition contextType :: rtype where
  "contextType = RType KInterface ''Context'' ''context'' 0 [] []
     [(''Deadline'', ''func() (time.Time, bool)''),
      (''Done'', ''func() <-chan struct {}''),
      (''Err'', ''func() error''),
      (''Value'', ''func(interface {}) interface {}'')]"

text \<open>\<^verbatim>\<open>*errors.errorString\<close>, the dynamic type of what \<^verbatim>\<open>fmt.Errorf\<close> returns here.\<close>

definition errorStringType :: rtype where
  "errorStringType = RType KPointer '''' '''' 1 [] [] [(''Error'', ''func() string'')]"

text \<open>\<^verbatim>\<open>context.backgroundCtx\<close>, the dynamic type of \<^verbatim>\<open>context.Background()\<close>.\<close>

definition backgroundCtxType :: rtype where
  "backgroundCtxType = RType KStruct ''backgroundCtx'' ''context'' 0 [] []
     [(''Deadline'', ''func() (time.Time, bool)''),
      (''Done'', ''func() <-chan struct {}''),
      (''Err'', ''func() error''),
      (''String'', ''func() string''),
      (''Value'', ''func(interface {}) interface {}'')]"

subsection \<open>Values\<close>

text \<open>
  The operands of a format verb, and the contents of a value: either opaque data, or a
  text that \<^verbatim>\<open>fmt\<close> built from a format string and its operands (kept unformatted).
\<close>

datatype fmtarg = ArgKind Kind | ArgString string | ArgInt int | ArgType rtype

datatype data = Opaque string | Formatted string "fmtarg list"

text \<open>
  A Go value with its dynamic type. An interface value (\<^verbatim>\<open>any\<close>, \<^verbatim>\<open>error\<close>,
  \<^verbatim>\<open>context.Context\<close>, \<^verbatim>\<open>Message\<close>) is a \<open>val option\<close>: \<open>None\<close> is the nil
  interface.
\<close>

datatype val = Val (dynType: rtype) (content: data)

type_synonym Message = "val option"
type_synonym Context = "val option"
type_synonym error = "val option"

definition Sprintf :: "string \<Rightarrow> fmtarg list \<Rightarrow> val" where
  "Sprintf f args = Val stringType (Formatted f args)"

definition Errorf :: "string \<Rightarrow> fmtarg list \<Rightarrow> val" where
  "Errorf f args = Val errorStringType (Formatted f args)"

definition Background :: Context where
  "Background = Some (Val backgroundCtxType (Opaque ''context.Background''))"

text \<open>
  Panics: the run-time errors the code can hit, the panics of package reflect, and
  \<^verbatim>\<open>panic(v)\<close> with a value.
\<close>

datatype panic =
    NilPointerDereference
  | NilMapAssignment
  | IndexOutOfRange
  | InterfaceConversion
  | ReflectPanic string
  | Panic val

text \<open>
  A candidate handler is a Go value of any type (\<^verbatim>\<open>type MessageHandler any\<close>): its
  dynamic type and, when it is a function that is not nil, its body: what a call does
  with the arguments it is entered with, which is to panic or to return its results
  (\<open>None\<close> for a nil interface result). A value that is no function, and a nil value
  of a function type, have no body. \<open>None\<close> is the nil \<^verbatim>\<open>MessageHandler\<close>.
\<close>

type_synonym body = "val option list \<Rightarrow> panic + val option list"

datatype handler = Handler (hType: rtype) (hBody: "body option")

type_synonym MessageHandler = "handler option"

text \<open>
  \<^verbatim>\<open>reflect.TypeOf\<close> returns the nil \<^verbatim>\<open>reflect.Type\<close> for a nil interface; a method
  call on it, such as \<^verbatim>\<open>Kind()\<close>, is a nil pointer dereference.
\<close>

definition TypeOf :: "val option \<Rightarrow> rtype option" where
  "TypeOf x = map_option dynType x"

definition TypeOfHandler :: "MessageHandler \<Rightarrow> rtype option" where
  "TypeOfHandler fn = map_option hType fn"

text \<open>
  A \<^verbatim>\<open>reflect.Value\<close>: the zero Value (\<^verbatim>\<open>reflect.ValueOf(nil)\<close>), or a type with
  what the Value holds (\<open>None\<close> when it holds nil). \<^verbatim>\<open>ValueOf(x)\<close> has the dynamic
  type of \<^verbatim>\<open>x\<close>; a result of \<^verbatim>\<open>Call\<close> has the declared result type.
\<close>

datatype Value = ZeroValue | Value rtype "val option"

definition ValueOf :: "val option \<Rightarrow> Value" where
  "ValueOf x = (case x of None \<Rightarrow> ZeroValue | Some v \<Rightarrow> Value (dynType v) (Some v))"

text \<open>
  \<^verbatim>\<open>v.IsNil()\<close> panics unless the Value's kind is chan, func, interface, map, pointer,
  slice or unsafe pointer.
\<close>

definition IsNil :: "Value \<Rightarrow> panic + bool" where
  "IsNil v = (case v of
      ZeroValue \<Rightarrow> Inl (ReflectPanic ''reflect: call of reflect.Value.IsNil on zero Value'')
    | Value t c \<Rightarrow>
        if Kind t \<in> {KChan, KFunc, KInterface, KMap, KPointer, KSlice, KUnsafePointer}
        then Inr (c = None)
        else Inl (ReflectPanic ''reflect: call of reflect.Value.IsNil on non-nilable Value''))"

text \<open>\<^verbatim>\<open>v.Interface()\<close>: what the Value holds, as an \<^verbatim>\<open>any\<close>.\<close>

definition Interface :: "Value \<Rightarrow> panic + val option" where
  "Interface v = (case v of
      ZeroValue \<Rightarrow> Inl (ReflectPanic ''reflect: call of reflect.Value.Interface on zero Value'')
    | Value t c \<Rightarrow> Inr c)"

text \<open>
  The type assertion \<^verbatim>\<open>x.(error)\<close>: it panics unless \<^verbatim>\<open>x\<close> is non-nil and its
  dynamic type implements \<^verbatim>\<open>error\<close>; the result is \<^verbatim>\<open>x\<close> itself.
\<close>

definition assertError :: "val option \<Rightarrow> panic + error" where
  "assertError x = (case x of
      None \<Rightarrow> Inl InterfaceConversion
    | Some v \<Rightarrow> if Implements (dynType v) errorType then Inr (Some v) else Inl InterfaceConversion)"

text \<open>
  An invocation records that a function value was entered, and with which arguments.
  \<^verbatim>\<open>fnValue.Call(args)\<close> panics, before the function is entered, on a value that is
  no function, on a nil function, on a wrong number of arguments, on a zero Value
  argument, and on an argument whose type is not assignable to its parameter's type, in
  this order. Otherwise it enters the function once, with what the arguments hold; the
  results come back as Values of the declared result types.
\<close>

type_synonym invocation = "handler \<times> val option list"

fun assignable :: "Value \<Rightarrow> rtype \<Rightarrow> bool" where
  "assignable ZeroValue p = False"
| "assignable (Value t c) p = AssignableTo t p"

fun held :: "Value \<Rightarrow> val option" where
  "held ZeroValue = None"
| "held (Value t c) = c"

definition Call :: "handler \<Rightarrow> Value list \<Rightarrow> invocation list \<times> (panic + Value list)" where
  "Call fn args =
    (if Kind (hType fn) \<noteq> KFunc then
       ([], Inl (ReflectPanic ''reflect: call of reflect.Value.Call on non-function Value''))
     else
       (case hBody fn of
          None \<Rightarrow> ([], Inl (ReflectPanic ''reflect.Value.Call: call of nil function''))
        | Some body \<Rightarrow>
            if length args \<noteq> NumIn (hType fn) then
              ([], Inl (ReflectPanic ''reflect: Call with wrong number of input arguments''))
            else if ZeroValue \<in> set args then
              ([], Inl (ReflectPanic ''reflect: Call using zero Value argument''))
            else if \<not> list_all2 assignable args (In (hType fn)) then
              ([], Inl (ReflectPanic ''reflect: Call using argument of unassignable type''))
            else
              ([(fn, map held args)],
               case body (map held args) of
                 Inl p \<Rightarrow> Inl p
               | Inr rets \<Rightarrow> Inr (map2 Value (Out (hType fn)) rets))))"

subsection \<open>The registry\<close>

text \<open>
  \<^verbatim>\<open>type DispatchMux struct { handlers map[reflect.Type]MessageHandler }\<close>. The map
  is \<open>None\<close> while it is the nil map; \<^verbatim>\<open>NewDispatchMux\<close> returns the zero struct.
\<close>

record DispatchMux =
  handlers :: "(rtype \<rightharpoonup> MessageHandler) option"

definition NewDispatchMux :: DispatchMux where
  "NewDispatchMux = \<lparr>handlers = None\<rparr>"

subsection \<open>validateHandler\<close>

text \<open>
  The result is \<open>Inr None\<close> for \<^verbatim>\<open>return nil\<close>, \<open>Inr (Some e)\<close> for a returned
  error, and \<open>Inl\<close> when the function panics: \<^verbatim>\<open>reflect.TypeOf(fn)\<close> is nil for a nil
  \<^verbatim>\<open>fn\<close>, and \<^verbatim>\<open>fnType.Kind()\<close> dereferences it. The \<^verbatim>\<open>switch\<close> on
  \<^verbatim>\<open>fnType.NumIn()\<close> is \<open>checkIn\<close>; the checks after it are \<open>checkOut\<close>.
\<close>

definition checkIn :: "rtype \<Rightarrow> error" where
  "checkIn fnType =
    (if NumIn fnType = 1 then
       (if Kind (In fnType ! 0) \<noteq> KStruct then
          Some (Errorf ''msgmux: fn MessageHandler input parameter should be a struct (got: %v)''
                  [ArgKind (Kind (In fnType ! 0))])
        else None)
     else if NumIn fnType = 2 then
       (if Kind (In fnType ! 0) \<noteq> KInterface then
          Some (Errorf ''msgmux: fn MessageHandler 1st input parameter should be an context.Context (got: %v)''
                  [ArgKind (Kind (In fnType ! 0))])
        else if \<not> Implements (In fnType ! 0) contextType then
          Some (Errorf ''msgmux: fn MessageHandler 1st input parameter should be context.Context (got: %v)''
                  [ArgKind (Kind (In fnType ! 0))])
        else if Kind (In fnType ! 1) \<noteq> KStruct then
          Some (Errorf ''msgmux: fn MessageHandler 2nd input parameter should be a struct (got: %v)''
                  [ArgKind (Kind (In fnType ! 1))])
        else None)
     else
       Some (Errorf ''msgmux: fn MessageHandler should have 1 or 2 input parameters (got: %d)''
               [ArgInt (int (NumIn fnType))]))"

definition checkOut :: "rtype \<Rightarrow> error" where
  "checkOut fnType =
    (if NumOut fnType \<noteq> 1 then
       Some (Errorf ''msgmux: fn MessageHandler should have 1 output parameter (got: %d)''
               [ArgInt (int (NumOut fnType))])
     else if Kind (Out fnType ! 0) \<noteq> KInterface then
       Some (Errorf ''msgmux: fn MessageHandler output parameter should be an error (got: %v)''
               [ArgKind (Kind (Out fnType ! 0))])
     else if Name (Out fnType ! 0) \<noteq> ''error'' then
       Some (Errorf ''msgmux: fn MessageHandler output parameter should be an error (got: %v)''
               [ArgString (Name (Out fnType ! 0))])
     else None)"

definition validateHandler :: "MessageHandler \<Rightarrow> panic + error" where
  "validateHandler fn =
    (case TypeOfHandler fn of
       None \<Rightarrow> Inl NilPointerDereference
     | Some fnType \<Rightarrow>
         if Kind fnType \<noteq> KFunc then
           Inr (Some (Errorf ''msgmux: fn MessageHandler is not a function (got: %v)''
                        [ArgKind (Kind fnType)]))
         else
           (case checkIn fnType of
              Some err \<Rightarrow> Inr (Some err)
            | None \<Rightarrow> Inr (checkOut fnType)))"

subsection \<open>Handle\<close>

text \<open>
  \<^verbatim>\<open>Handle\<close> mutates the registry and may panic; the model returns the panic, if any,
  together with the registry as the call leaves it, so that what a panicking call has
  already written stays visible. The steps are in the order of the source: validate,
  make the map when it is nil, find the message type, refuse a duplicate, store.
  \<open>msgTypeOf\<close> is the \<^verbatim>\<open>switch\<close> that picks the message parameter.
\<close>

definition msgTypeOf :: "rtype \<Rightarrow> rtype option" where
  "msgTypeOf fnType =
    (if NumIn fnType = 1 then Some (In fnType ! 0)
     else if NumIn fnType = 2 then Some (In fnType ! 1)
     else None)"

definition Handle :: "DispatchMux \<Rightarrow> MessageHandler \<Rightarrow> panic option \<times> DispatchMux" where
  "Handle m fn =
    (case validateHandler fn of
       Inl p \<Rightarrow> (Some p, m)
     | Inr (Some err) \<Rightarrow> (Some (Panic err), m)
     | Inr None \<Rightarrow>
         (let m1 = (if handlers m = None then m\<lparr>handlers := Some Map.empty\<rparr> else m) in
          case TypeOfHandler fn of
            None \<Rightarrow> (Some NilPointerDereference, m1)
          | Some fnType \<Rightarrow>
              (case msgTypeOf fnType of
                 None \<Rightarrow>
                   (Some (Panic (Sprintf ''msgmux: invalid handler function signature (got: %v)''
                                   [ArgType fnType])), m1)
               | Some msgType \<Rightarrow>
                   (case handlers m1 of
                      None \<Rightarrow> (Some NilMapAssignment, m1)
                    | Some hs \<Rightarrow>
                        if hs msgType \<noteq> None then
                          (Some (Panic (Sprintf ''msgmux: handler for message %v already registered''
                                          [ArgString (Name msgType)])), m1)
                        else (None, m1\<lparr>handlers := Some (hs(msgType \<mapsto> fn))\<rparr>)))))"

subsection \<open>Dispatch\<close>

text \<open>
  A dispatch returns the invocations it made together with its outcome: \<open>Inl\<close> a panic,
  \<open>Inr None\<close> for \<^verbatim>\<open>return nil\<close>, \<open>Inr (Some e)\<close> for a returned error.
\<close>

definition invokeHandler ::
  "Context \<Rightarrow> MessageHandler \<Rightarrow> Message \<Rightarrow> invocation list \<times> (panic + error)" where
  "invokeHandler ctx handler msg =
    (case handler of
       None \<Rightarrow> ([], Inl (ReflectPanic ''reflect: call of reflect.Value.Type on zero Value''))
     | Some fn \<Rightarrow>
         if Kind (hType fn) \<noteq> KFunc then
           ([], Inl (ReflectPanic ''reflect: NumIn of non-func type''))
         else
           (case (if NumIn (hType fn) = 1 then Some [ValueOf msg]
                  else if NumIn (hType fn) = 2 then Some [ValueOf ctx, ValueOf msg]
                  else None) of
              None \<Rightarrow>
                ([], Inl (Panic (Sprintf ''msgmux: invalid handler function signature (got: %v)''
                                   [ArgType (hType fn)])))
            | Some args \<Rightarrow>
                (case Call fn args of
                   (tr, Inl p) \<Rightarrow> (tr, Inl p)
                 | (tr, Inr out) \<Rightarrow>
                     (case out of
                        [] \<Rightarrow> (tr, Inl IndexOutOfRange)
                      | out0 # _ \<Rightarrow>
                          (case IsNil out0 of
                             Inl p \<Rightarrow> (tr, Inl p)
                           | Inr True \<Rightarrow> (tr, Inr None)
                           | Inr False \<Rightarrow>
                               (case Interface out0 of
                                  Inl p \<Rightarrow> (tr, Inl p)
                                | Inr x \<Rightarrow> (tr, assertError x)))))))"

definition DispatchContext ::
  "DispatchMux \<Rightarrow> Context \<Rightarrow> Message \<Rightarrow> invocation list \<times> (panic + error)" where
  "DispatchContext m ctx msg =
    (case TypeOf msg of
       None \<Rightarrow> ([], Inl NilPointerDereference)
     | Some eventType \<Rightarrow>
         if Kind eventType \<noteq> KStruct then
           ([], Inr (Some (Errorf ''msgmux: msg should be a struct (got: %v)''
                             [ArgKind (Kind eventType)])))
         else
           (case handlers m of
              None \<Rightarrow> ([], Inr None)
            | Some hs \<Rightarrow>
                (case hs eventType of
                   None \<Rightarrow>
                     ([], Inr (Some (Errorf ''msgmux: no handler registered for message %v''
                                       [ArgString (Name eventType)])))
                 | Some handler \<Rightarrow> invokeHandler ctx handler msg)))"

definition Dispatch :: "DispatchMux \<Rightarrow> Message \<Rightarrow> invocation list \<times> (panic + error)" where
  "Dispatch m msg = DispatchContext m Background msg"

text \<open>
  A run of registrations: \<^verbatim>\<open>Handle\<close> called with each candidate in turn, a panicking
  call recovered by the caller; it returns the panic of each call (\<open>None\<close> when the call
  returned) and the registry at the end.
\<close>

fun HandleAll :: "DispatchMux \<Rightarrow> MessageHandler list \<Rightarrow> panic option list \<times> DispatchMux" where
  "HandleAll m [] = ([], m)"
| "HandleAll m (fn # fns) =
     (case Handle m fn of (r, m') \<Rightarrow>
        (case HandleAll m' fns of (rs, m'') \<Rightarrow> (r # rs, m'')))"

subsection \<open>The values of the tests and the examples\<close>

text \<open>
  The message types of \<^verbatim>\<open>README.md\<close> and \<^verbatim>\<open>mux_test.go\<close>, an unnamed function
  type with given parameters and results, the handlers the examples register, and the
  message \<^verbatim>\<open>OrderCompleted{OrderID: "order-123"}\<close>.
\<close>

definition OrderCompleted :: rtype where
  "OrderCompleted = RType KStruct ''OrderCompleted'' ''msgmux_test'' 0 [] [] []"

definition CancelOrder :: rtype where
  "CancelOrder = RType KStruct ''CancelOrder'' ''msgmux_test'' 0 [] [] []"

definition ShipOrder :: rtype where
  "ShipOrder = RType KStruct ''ShipOrder'' ''msgmux_test'' 0 [] [] []"

definition funcType :: "rtype list \<Rightarrow> rtype list \<Rightarrow> rtype" where
  "funcType ins outs = RType KFunc [] [] 0 ins outs []"

definition order123 :: val where
  "order123 = Val OrderCompleted (Opaque ''{OrderID:order-123}'')"

definition ship123 :: val where
  "ship123 = Val ShipOrder (Opaque ''{OrderID:order-123}'')"

definition cancel123 :: val where
  "cancel123 = Val CancelOrder (Opaque ''{OrderID:order-123 Reason:Change my mind}'')"

text \<open>\<^verbatim>\<open>func(event OrderCompleted) error { return nil }\<close>\<close>

definition onOrderCompleted :: handler where
  "onOrderCompleted = Handler (funcType [OrderCompleted] [errorType]) (Some (\<lambda>args. Inr [None]))"

text \<open>\<^verbatim>\<open>func(ctx context.Context, event OrderCompleted) error { return nil }\<close>\<close>

definition onOrderCompletedCtx :: handler where
  "onOrderCompletedCtx =
     Handler (funcType [contextType, OrderCompleted] [errorType]) (Some (\<lambda>args. Inr [None]))"

text \<open>\<^verbatim>\<open>func(e CancelOrder) error { return errors.New("too late") }\<close>\<close>

definition tooLate :: val where
  "tooLate = Val errorStringType (Opaque ''too late'')"

definition onCancelOrder :: handler where
  "onCancelOrder = Handler (funcType [CancelOrder] [errorType]) (Some (\<lambda>args. Inr [Some tooLate]))"

text \<open>
  A package can declare its own interface under the name \<^verbatim>\<open>error\<close>:
  \<^verbatim>\<open>type error interface { Code() int }\<close>, with \<^verbatim>\<open>type status struct{}\<close> and
  \<^verbatim>\<open>func (status) Code() int\<close>. Inside that package
  \<^verbatim>\<open>func(e OrderCompleted) error { return status{} }\<close> has the declared interface as
  its result type, not the predeclared one.
\<close>

definition ownErrorType :: rtype where
  "ownErrorType = RType KInterface ''error'' ''main'' 0 [] [] [(''Code'', ''func() int'')]"

definition statusType :: rtype where
  "statusType = RType KStruct ''status'' ''main'' 0 [] [] [(''Code'', ''func() int'')]"

definition status0 :: val where
  "status0 = Val statusType (Opaque ''{}'')"

definition onOrderCompletedOwnError :: handler where
  "onOrderCompletedOwnError =
     Handler (funcType [OrderCompleted] [ownErrorType]) (Some (\<lambda>args. Inr [Some status0]))"

text \<open>
  A struct type with the four methods of \<^verbatim>\<open>context.Context\<close>, and
  \<^verbatim>\<open>func(ctx myCtx, event OrderCompleted) error { return nil }\<close>.
\<close>

definition myCtxType :: rtype where
  "myCtxType = RType KStruct ''myCtx'' ''main'' 0 [] [] (Methods contextType)"

definition onOrderCompletedMyCtx :: handler where
  "onOrderCompletedMyCtx =
     Handler (funcType [myCtxType, OrderCompleted] [errorType]) (Some (\<lambda>args. Inr [None]))"

text \<open>
  An interface with more methods than \<^verbatim>\<open>context.Context\<close>:
  \<^verbatim>\<open>type traceContext interface { context.Context; TraceID() string }\<close>, and
  \<^verbatim>\<open>func(ctx traceContext, event OrderCompleted) error { return nil }\<close>.
\<close>

definition traceContextType :: rtype where
  "traceContextType = RType KInterface ''traceContext'' ''main'' 0 [] []
     (Methods contextType @ [(''TraceID'', ''func() string'')])"

definition onOrderCompletedTrace :: handler where
  "onOrderCompletedTrace =
     Handler (funcType [traceContextType, OrderCompleted] [errorType]) (Some (\<lambda>args. Inr [None]))"

text \<open>
  A nil value of a function type:
  \<^verbatim>\<open>var onOrderCompletedNil func(event OrderCompleted) error\<close>.
\<close>

definition onOrderCompletedNil :: handler where
  "onOrderCompletedNil = Handler (funcType [OrderCompleted] [errorType]) None"

text \<open>
  \<^verbatim>\<open>*context.cancelCtx\<close>, the dynamic type of a context made by
  \<^verbatim>\<open>context.WithCancel\<close>, and one such context.
\<close>

definition cancelCtxType :: rtype where
  "cancelCtxType = RType KPointer [] [] 2 [] [] (Methods contextType @ [(''String'', ''func() string'')])"

definition ctx1 :: val where
  "ctx1 = Val cancelCtxType (Opaque ''context.Background.WithCancel'')"

text \<open>The mapping of a registry, read as Go reads a map: the nil map has no entry.\<close>

definition entries :: "DispatchMux \<Rightarrow> (rtype \<rightharpoonup> MessageHandler)" where
  "entries m = (case handlers m of None \<Rightarrow> Map.empty | Some hs \<Rightarrow> hs)"

text \<open>The arguments a handler of one or of two parameters is to be entered with.\<close>

definition handlerArgs :: "handler \<Rightarrow> Context \<Rightarrow> Message \<Rightarrow> val option list" where
  "handlerArgs h ctx msg = (if NumIn (hType h) = 1 then [msg] else [ctx, msg])"

text \<open>
  The two errors of \<^verbatim>\<open>validateHandler\<close> about the first of two parameters, by their
  format strings.
\<close>

fun contextError :: "error \<Rightarrow> bool" where
  "contextError (Some (Val t (Formatted f args))) =
     (f = ''msgmux: fn MessageHandler 1st input parameter should be an context.Context (got: %v)''
      \<or> f = ''msgmux: fn MessageHandler 1st input parameter should be context.Context (got: %v)'')"
| "contextError _ = False"

text \<open>
  The invariant of a registry: every entry holds a candidate that
  \<^verbatim>\<open>validateHandler\<close> accepts, under the type of its message parameter.
\<close>

definition wellFormed :: "DispatchMux \<Rightarrow> bool" where
  "wellFormed m \<longleftrightarrow>
     (\<forall>T h. entries m T = Some h \<longrightarrow>
        validateHandler h = Inr None \<and>
        (\<exists>ft. TypeOfHandler h = Some ft \<and> msgTypeOf ft = Some T))"

section \<open>Validation and registration\<close>

subsection \<open>What validateHandler accepts\<close>

lemma checkIn_ok:
  "checkIn ft = None \<longleftrightarrow>
     (NumIn ft = 1 \<and> Kind (In ft ! 0) = KStruct) \<or>
     (NumIn ft = 2 \<and> Kind (In ft ! 0) = KInterface \<and> Implements (In ft ! 0) contextType
        \<and> Kind (In ft ! 1) = KStruct)"
  by (simp add: checkIn_def)

lemma checkOut_ok:
  "checkOut ft = None \<longleftrightarrow>
     NumOut ft = 1 \<and> Kind (Out ft ! 0) = KInterface \<and> Name (Out ft ! 0) = ''error''"
  by (simp add: checkOut_def)

lemma validateHandler_ok:
  "validateHandler fn = Inr None \<longleftrightarrow>
     (\<exists>f. fn = Some f \<and> Kind (hType f) = KFunc \<and> checkIn (hType f) = None
          \<and> checkOut (hType f) = None)"
  by (cases fn) (auto simp: validateHandler_def TypeOfHandler_def split: option.splits)

lemma checkIn_msgTypeOf:
  "checkIn ft = None \<Longrightarrow> \<exists>T. msgTypeOf ft = Some T \<and> Kind T = KStruct"
  by (auto simp: checkIn_ok msgTypeOf_def)

subsection \<open>The three ways a call of Handle ends\<close>

lemma Handle_invalid:
  "validateHandler fn \<noteq> Inr None \<Longrightarrow> fst (Handle m fn) \<noteq> None \<and> snd (Handle m fn) = m"
  by (auto simp: Handle_def split: sum.splits option.splits)

lemma Handle_fresh:
  assumes "validateHandler (Some f) = Inr None" "msgTypeOf (hType f) = Some T" "entries m T = None"
  shows "Handle m (Some f) = (None, m\<lparr>handlers := Some ((entries m)(T \<mapsto> Some f))\<rparr>)"
  using assms
  by (cases "handlers m") (auto simp: Handle_def entries_def TypeOfHandler_def Let_def)

lemma Handle_duplicate:
  assumes "validateHandler (Some f) = Inr None" "msgTypeOf (hType f) = Some T" "entries m T = Some h"
  shows "Handle m (Some f) =
     (Some (Panic (Sprintf ''msgmux: handler for message %v already registered''
                     [ArgString (Name T)])), m)"
  using assms
  by (cases "handlers m") (auto simp: Handle_def entries_def TypeOfHandler_def Let_def)

text \<open>
  C3. A call of \<^verbatim>\<open>Handle\<close> is all or nothing. When it panics, for whatever reason,
  the registry it leaves is the registry it was given: the same mapping, and still the
  nil map if it was nil. When it returns, the mapping is the old one with exactly one
  new entry, from the candidate's message type (which had no entry) to the candidate.
  In particular a candidate whose message type already has a handler makes the call
  panic, and that type keeps the handler it had.
\<close>

theorem Handle_atomic:
  "(fst (Handle m fn) \<noteq> None \<longrightarrow> snd (Handle m fn) = m) \<and>
   (fst (Handle m fn) = None \<longrightarrow>
      (\<exists>ft T. TypeOfHandler fn = Some ft \<and> msgTypeOf ft = Some T \<and> T \<notin> dom (entries m) \<and>
         handlers (snd (Handle m fn)) = Some ((entries m)(T \<mapsto> fn)))) \<and>
   (\<forall>ft T h. TypeOfHandler fn = Some ft \<and> msgTypeOf ft = Some T \<and> entries m T = Some h \<longrightarrow>
      fst (Handle m fn) \<noteq> None \<and> snd (Handle m fn) = m \<and>
      entries (snd (Handle m fn)) T = Some h)"
proof (cases "validateHandler fn = Inr None")
  case False
  then have "fst (Handle m fn) \<noteq> None" "snd (Handle m fn) = m"
    using Handle_invalid [of fn m] by simp_all
  then show ?thesis by auto
next
  case True
  then obtain f where f: "fn = Some f" "checkIn (hType f) = None"
    by (auto simp: validateHandler_ok)
  then obtain T where T: "msgTypeOf (hType f) = Some T"
    using checkIn_msgTypeOf by blast
  show ?thesis
  proof (cases "entries m T")
    case None
    then show ?thesis
      using Handle_fresh [OF True [unfolded f(1)] T None] f(1) T
      by (auto simp: TypeOfHandler_def)
  next
    case (Some h)
    then show ?thesis
      using Handle_duplicate [OF True [unfolded f(1)] T Some] f(1) T
      by (auto simp: TypeOfHandler_def)
  qed
qed

subsection \<open>The handlers of the tests\<close>

lemma valid_onOrderCompleted: "validateHandler (Some onOrderCompleted) = Inr None"
  by (simp add: validateHandler_ok checkIn_ok checkOut_ok onOrderCompleted_def funcType_def
      NumIn_def NumOut_def OrderCompleted_def errorType_def)

lemma valid_onOrderCompletedCtx: "validateHandler (Some onOrderCompletedCtx) = Inr None"
  by (simp add: validateHandler_ok checkIn_ok checkOut_ok onOrderCompletedCtx_def funcType_def
      NumIn_def NumOut_def OrderCompleted_def errorType_def contextType_def Implements_def)

lemma msgTypeOf_onOrderCompleted: "msgTypeOf (hType onOrderCompleted) = Some OrderCompleted"
  by (simp add: msgTypeOf_def onOrderCompleted_def funcType_def NumIn_def)

lemma msgTypeOf_onOrderCompletedCtx: "msgTypeOf (hType onOrderCompletedCtx) = Some OrderCompleted"
  by (simp add: msgTypeOf_def onOrderCompletedCtx_def funcType_def NumIn_def)

lemma Handle_first:
  "Handle NewDispatchMux (Some onOrderCompleted) =
     (None, \<lparr>handlers = Some [OrderCompleted \<mapsto> Some onOrderCompleted]\<rparr>)"
  using Handle_fresh [OF valid_onOrderCompleted msgTypeOf_onOrderCompleted, of NewDispatchMux]
  by (simp add: entries_def NewDispatchMux_def)

text \<open>
  The three cases of C3 on the handlers of the tests: the first registration of a
  handler for \<^verbatim>\<open>OrderCompleted\<close> adds its entry; a second handler for the same type
  panics and leaves the registry as it was; the nil candidate panics and leaves the
  registry with its nil map.
\<close>

theorem Handle_atomic_witness:
  "fst (Handle NewDispatchMux (Some onOrderCompleted)) = None \<and>
   handlers (snd (Handle NewDispatchMux (Some onOrderCompleted))) =
     Some [OrderCompleted \<mapsto> Some onOrderCompleted] \<and>
   fst (Handle \<lparr>handlers = Some [OrderCompleted \<mapsto> Some onOrderCompleted]\<rparr>
          (Some onOrderCompletedCtx)) \<noteq> None \<and>
   snd (Handle \<lparr>handlers = Some [OrderCompleted \<mapsto> Some onOrderCompleted]\<rparr>
          (Some onOrderCompletedCtx)) = \<lparr>handlers = Some [OrderCompleted \<mapsto> Some onOrderCompleted]\<rparr> \<and>
   fst (Handle NewDispatchMux None) \<noteq> None \<and> snd (Handle NewDispatchMux None) = NewDispatchMux"
proof -
  let ?m = "\<lparr>handlers = Some [OrderCompleted \<mapsto> Some onOrderCompleted]\<rparr>"
  have a: "fst (Handle NewDispatchMux (Some onOrderCompleted)) = None"
    by (simp add: Handle_first)
  have b: "TypeOfHandler (Some onOrderCompletedCtx) = Some (hType onOrderCompletedCtx)"
    by (simp add: TypeOfHandler_def)
  have c: "entries ?m OrderCompleted = Some (Some onOrderCompleted)"
    by (simp add: entries_def)
  have d: "fst (Handle NewDispatchMux None) \<noteq> None"
    by (simp add: Handle_def validateHandler_def TypeOfHandler_def)
  from a Handle_atomic [of NewDispatchMux "Some onOrderCompleted"]
  have 1: "handlers (snd (Handle NewDispatchMux (Some onOrderCompleted))) =
     Some [OrderCompleted \<mapsto> Some onOrderCompleted]"
    by (auto simp: TypeOfHandler_def msgTypeOf_onOrderCompleted entries_def NewDispatchMux_def)
  from b c msgTypeOf_onOrderCompletedCtx Handle_atomic [of ?m "Some onOrderCompletedCtx"]
  have 2: "fst (Handle ?m (Some onOrderCompletedCtx)) \<noteq> None \<and>
           snd (Handle ?m (Some onOrderCompletedCtx)) = ?m"
    by blast
  from d Handle_atomic [of NewDispatchMux None]
  have 3: "snd (Handle NewDispatchMux None) = NewDispatchMux"
    by blast
  from a 1 2 3 d show ?thesis by blast
qed

section \<open>Dispatch\<close>

subsection \<open>What a dispatch calls, and what comes back\<close>

lemma In_one: "NumIn ft = 1 \<Longrightarrow> In ft = [In ft ! 0]"
  by (cases "In ft") (auto simp: NumIn_def)

lemma In_two: "NumIn ft = 2 \<Longrightarrow> In ft = [In ft ! 0, In ft ! 1]"
  by (cases "In ft"; cases "tl (In ft)") (auto simp: NumIn_def)

lemma Out_one: "NumOut ft = 1 \<Longrightarrow> Out ft = [Out ft ! 0]"
  by (cases "Out ft") (auto simp: NumOut_def)

lemma held_ValueOf: "ValueOf x \<noteq> ZeroValue \<Longrightarrow> held (ValueOf x) = x"
  by (cases x) (simp_all add: ValueOf_def)

lemma Call_trace:
  "(H, args) \<in> set (fst (Call fn vs)) \<Longrightarrow> H = fn \<and> args = map held vs \<and> ZeroValue \<notin> set vs"
  by (auto simp: Call_def split: if_splits option.splits)

lemma invokeHandler_trace:
  assumes "(H, args) \<in> set (fst (invokeHandler ctx h msg))"
  shows "h = Some H \<and> args = handlerArgs H ctx msg"
proof -
  from assms obtain fn where fn: "h = Some fn" "Kind (hType fn) = KFunc"
    by (cases h) (auto simp: invokeHandler_def split: if_splits)
  from assms fn have n: "NumIn (hType fn) = 1 \<or> NumIn (hType fn) = 2"
    by (auto simp: invokeHandler_def split: if_splits)
  let ?vs = "if NumIn (hType fn) = 1 then [ValueOf msg] else [ValueOf ctx, ValueOf msg]"
  from assms fn n have "(H, args) \<in> set (fst (Call fn ?vs))"
    by (auto simp: invokeHandler_def split: if_splits prod.splits sum.splits list.splits bool.splits)
  from Call_trace [OF this] show ?thesis
    using fn n by (auto simp: handlerArgs_def held_ValueOf)
qed


lemma Call_outcome:
  assumes "fst (Call fn vs) = [(fn, args)]" and "hBody fn = Some body"
  shows "snd (Call fn vs) =
     (case body args of Inl p \<Rightarrow> Inl p
      | Inr rets \<Rightarrow> Inr (map2 Value (Out (hType fn)) rets))"
  using assms by (auto simp: Call_def split: if_splits)

lemma Call_valid:
  assumes "validateHandler (Some H) = Inr None"
    and "hBody H = Some body"
    and "msgTypeOf (hType H) = Some (dynType t)"
    and "NumIn (hType H) = 2 \<longrightarrow> (\<exists>c. ctx = Some c \<and> Implements (dynType c) (In (hType H) ! 0))"
  shows "fst (Call H (if NumIn (hType H) = 1 then [ValueOf (Some t)]
                      else [ValueOf ctx, ValueOf (Some t)]))
         = [(H, handlerArgs H ctx (Some t))]"
proof -
  from assms(1) have k: "Kind (hType H) = KFunc" and ci: "checkIn (hType H) = None"
    by (auto simp: validateHandler_ok)
  from ci consider
      (one) "NumIn (hType H) = 1"
    | (two) "NumIn (hType H) = 2" "Kind (In (hType H) ! 0) = KInterface"
    by (auto simp: checkIn_ok)
  then show ?thesis
  proof cases
    case one
    with assms(3) have "In (hType H) = [dynType t]"
      using In_one [OF one] by (simp add: msgTypeOf_def)
    with one k assms(2) show ?thesis
      by (simp add: Call_def ValueOf_def handlerArgs_def AssignableTo_def)
  next
    case two
    with assms(4) obtain c where c: "ctx = Some c" "Implements (dynType c) (In (hType H) ! 0)"
      by blast
    from two assms(3) have "In (hType H) = [In (hType H) ! 0, dynType t]"
      using In_two [OF two(1)] by (simp add: msgTypeOf_def)
    then obtain I where I: "In (hType H) = [I, dynType t]" "In (hType H) ! 0 = I"
      by (metis nth_Cons_0)
    with two k c assms(2) show ?thesis
      by (simp add: Call_def ValueOf_def handlerArgs_def AssignableTo_def)
  qed
qed

lemma invokeHandler_valid:
  assumes "validateHandler (Some H) = Inr None"
    and "hBody H = Some body"
    and "msgTypeOf (hType H) = Some (dynType t)"
    and "NumIn (hType H) = 2 \<longrightarrow> (\<exists>c. ctx = Some c \<and> Implements (dynType c) (In (hType H) ! 0))"
  shows "invokeHandler ctx (Some H) (Some t) =
     ([(H, handlerArgs H ctx (Some t))],
      case body (handlerArgs H ctx (Some t)) of
        Inl p \<Rightarrow> Inl p
      | Inr rets \<Rightarrow>
          (case rets of
             [] \<Rightarrow> Inl IndexOutOfRange
           | r # rs \<Rightarrow>
               (case r of
                  None \<Rightarrow> Inr None
                | Some e \<Rightarrow>
                    if Implements (dynType e) errorType then Inr (Some e)
                    else Inl InterfaceConversion)))"
proof -
  let ?vs = "if NumIn (hType H) = 1 then [ValueOf (Some t)] else [ValueOf ctx, ValueOf (Some t)]"
  let ?args = "handlerArgs H ctx (Some t)"
  from assms(1) have k: "Kind (hType H) = KFunc" and ci: "checkIn (hType H) = None"
    and co: "checkOut (hType H) = None"
    by (auto simp: validateHandler_ok)
  from ci have n: "NumIn (hType H) = 1 \<or> NumIn (hType H) = 2"
    by (auto simp: checkIn_ok)
  from co obtain ot where ot: "Out (hType H) = [ot]" "Kind ot = KInterface"
    using Out_one [of "hType H"] by (auto simp: checkOut_ok)
  have tr: "fst (Call H ?vs) = [(H, ?args)]"
    by (rule Call_valid [OF assms])
  have oc: "snd (Call H ?vs) =
     (case body ?args of Inl p \<Rightarrow> Inl p | Inr rets \<Rightarrow> Inr (map2 Value [ot] rets))"
    using Call_outcome [OF tr assms(2)] ot by (simp split: sum.splits)
  have iv: "invokeHandler ctx (Some H) (Some t) =
     (case Call H ?vs of
        (tr, Inl p) \<Rightarrow> (tr, Inl p)
      | (tr, Inr out) \<Rightarrow>
          (case out of
             [] \<Rightarrow> (tr, Inl IndexOutOfRange)
           | out0 # _ \<Rightarrow>
               (case IsNil out0 of
                  Inl p \<Rightarrow> (tr, Inl p)
                | Inr True \<Rightarrow> (tr, Inr None)
                | Inr False \<Rightarrow>
                    (case Interface out0 of
                       Inl p \<Rightarrow> (tr, Inl p)
                     | Inr x \<Rightarrow> (tr, assertError x)))))"
    using k n by (auto simp: invokeHandler_def)
  obtain tr' r' where c: "Call H ?vs = (tr', r')" by (cases "Call H ?vs")
  with tr oc have tr': "tr' = [(H, ?args)]"
    and r': "r' = (case body ?args of Inl p \<Rightarrow> Inl p | Inr rets \<Rightarrow> Inr (map2 Value [ot] rets))"
    by simp_all
  show ?thesis
    unfolding iv c tr' r'
    using ot(2)
    by (auto simp: IsNil_def Interface_def assertError_def split: sum.splits list.splits option.splits)
qed

lemma DispatchContext_struct:
  "Kind (dynType t) = KStruct \<Longrightarrow>
   DispatchContext m ctx (Some t) =
     (case handlers m of
        None \<Rightarrow> ([], Inr None)
      | Some hs \<Rightarrow>
          (case hs (dynType t) of
             None \<Rightarrow>
               ([], Inr (Some (Errorf ''msgmux: no handler registered for message %v''
                                 [ArgString (Name (dynType t))])))
           | Some h \<Rightarrow> invokeHandler ctx h (Some t)))"
  by (simp add: DispatchContext_def TypeOf_def)

lemma DispatchContext_registered:
  "entries m (dynType t) = Some h \<Longrightarrow> Kind (dynType t) = KStruct \<Longrightarrow>
   DispatchContext m ctx (Some t) = invokeHandler ctx h (Some t)"
  by (auto simp: DispatchContext_struct entries_def split: option.splits)

subsection \<open>Registries built by Handle are well formed\<close>

lemma wellFormed_New: "wellFormed NewDispatchMux"
  by (simp add: wellFormed_def entries_def NewDispatchMux_def)

lemma wellFormed_Handle:
  assumes "wellFormed m"
  shows "wellFormed (snd (Handle m fn))"
proof (cases "validateHandler fn = Inr None")
  case False
  then show ?thesis using Handle_invalid [of fn m] assms by simp
next
  case True
  then obtain f where f: "fn = Some f" "checkIn (hType f) = None"
    by (auto simp: validateHandler_ok)
  then obtain T where T: "msgTypeOf (hType f) = Some T"
    using checkIn_msgTypeOf by blast
  show ?thesis
  proof (cases "entries m T")
    case None
    have "entries (snd (Handle m fn)) = (entries m)(T \<mapsto> fn)"
      using Handle_fresh [OF True [unfolded f(1)] T None] f(1)
      by (simp add: entries_def)
    with assms True T f(1) show ?thesis
      by (auto simp: wellFormed_def TypeOfHandler_def)
  next
    case (Some h)
    then show ?thesis
      using Handle_duplicate [OF True [unfolded f(1)] T Some] f(1) assms by simp
  qed
qed

lemma HandleAll_Cons:
  "fst (HandleAll m (fn # fns)) = fst (Handle m fn) # fst (HandleAll (snd (Handle m fn)) fns)"
  "snd (HandleAll m (fn # fns)) = snd (HandleAll (snd (Handle m fn)) fns)"
  by (simp_all split: prod.splits)

lemma wellFormed_HandleAll:
  "wellFormed m \<Longrightarrow> wellFormed (snd (HandleAll m fns))"
proof (induction fns arbitrary: m)
  case Nil
  then show ?case by simp
next
  case (Cons fn fns)
  from Cons.IH [OF wellFormed_Handle [OF Cons.prems, of fn]]
  show ?case by (simp only: HandleAll_Cons)
qed

subsection \<open>Runs of registrations\<close>

lemma HandleAll_all_failed:
  "None \<notin> set (fst (HandleAll m fns)) \<Longrightarrow> snd (HandleAll m fns) = m"
proof (induction fns arbitrary: m)
  case Nil
  then show ?case by simp
next
  case (Cons fn fns)
  from Cons.prems have f: "fst (Handle m fn) \<noteq> None"
    and r: "None \<notin> set (fst (HandleAll (snd (Handle m fn)) fns))"
    unfolding HandleAll_Cons by (auto simp: eq_commute [of None])
  have "snd (Handle m fn) = m"
  proof (cases "validateHandler fn = Inr None")
    case False
    then show ?thesis using Handle_invalid by blast
  next
    case True
    then obtain h where "fn = Some h" "checkIn (hType h) = None"
      by (auto simp: validateHandler_ok)
    then obtain T where T: "msgTypeOf (hType h) = Some T"
      using checkIn_msgTypeOf by blast
    show ?thesis
    proof (cases "entries m T")
      case None
      with Handle_fresh [OF True [unfolded \<open>fn = Some h\<close>] T None] f \<open>fn = Some h\<close>
      show ?thesis by simp
    next
      case (Some g)
      with Handle_duplicate [OF True [unfolded \<open>fn = Some h\<close>] T Some] \<open>fn = Some h\<close>
      show ?thesis by simp
    qed
  qed
  with Cons.IH [OF r] show ?case by (simp only: HandleAll_Cons)
qed

lemma Handle_keeps_entries:
  "entries m T = Some h \<Longrightarrow> entries (snd (Handle m fn)) T = Some h"
proof (cases "validateHandler fn = Inr None")
  case False
  assume "entries m T = Some h"
  then show ?thesis using Handle_invalid [OF False, of m] by simp
next
  case True
  assume e: "entries m T = Some h"
  from True obtain f where f: "fn = Some f" "checkIn (hType f) = None"
    by (auto simp: validateHandler_ok)
  then obtain U where U: "msgTypeOf (hType f) = Some U"
    using checkIn_msgTypeOf by blast
  show ?thesis
  proof (cases "entries m U")
    case None
    with e have "U \<noteq> T" by auto
    then show ?thesis
      using Handle_fresh [OF True [unfolded f(1)] U None] f(1) e
      by (simp add: entries_def)
  next
    case (Some g)
    then show ?thesis
      using Handle_duplicate [OF True [unfolded f(1)] U Some] f(1) e by simp
  qed
qed

lemma Handle_success_entry:
  assumes "fst (Handle m fn) = None"
  shows "\<exists>T. entries (snd (Handle m fn)) T = Some fn"
proof -
  from assms have v: "validateHandler fn = Inr None"
    using Handle_invalid by blast
  then obtain f where f: "fn = Some f" "checkIn (hType f) = None"
    by (auto simp: validateHandler_ok)
  then obtain U where U: "msgTypeOf (hType f) = Some U"
    using checkIn_msgTypeOf by blast
  show ?thesis
  proof (cases "entries m U")
    case None
    then show ?thesis
      using Handle_fresh [OF v [unfolded f(1)] U None] f(1)
      by (auto simp: entries_def)
  next
    case (Some g)
    then show ?thesis
      using Handle_duplicate [OF v [unfolded f(1)] U Some] f(1) assms by simp
  qed
qed

lemma HandleAll_keeps_entries:
  "entries m T = Some h \<Longrightarrow> entries (snd (HandleAll m fns)) T = Some h"
proof (induction fns arbitrary: m)
  case Nil
  then show ?case by simp
next
  case (Cons fn fns)
  from Cons.IH [OF Handle_keeps_entries [OF Cons.prems, of fn]]
  show ?case by (simp only: HandleAll_Cons)
qed

lemma HandleAll_some_succeeded:
  "None \<in> set (fst (HandleAll m fns)) \<Longrightarrow> \<exists>T h. entries (snd (HandleAll m fns)) T = Some h"
proof (induction fns arbitrary: m)
  case Nil
  then show ?case by simp
next
  case (Cons fn fns)
  show ?case
  proof (cases "fst (Handle m fn) = None")
    case True
    from Handle_success_entry [OF True] obtain T where "entries (snd (Handle m fn)) T = Some fn" ..
    from HandleAll_keeps_entries [OF this, of fns] show ?thesis
      by (auto simp only: HandleAll_Cons)
  next
    case False
    with Cons.prems have "None \<in> set (fst (HandleAll (snd (Handle m fn)) fns))"
      unfolding HandleAll_Cons by auto
    from Cons.IH [OF this] show ?thesis by (simp only: HandleAll_Cons)
  qed
qed

lemma entries_Some_handlers:
  "entries m T = Some h \<Longrightarrow> \<exists>hs. handlers m = Some hs \<and> hs T = Some h"
  by (auto simp: entries_def split: option.splits)

section \<open>Dispatching a struct value\<close>

text \<open>
  C1. Let the message be a value of a struct type. After any run of registrations in
  which every call of \<^verbatim>\<open>Handle\<close> panicked (so no handler was ever registered: the
  registry still has its nil map), \<^verbatim>\<open>DispatchContext\<close> and \<^verbatim>\<open>Dispatch\<close> call
  nothing and return nil. A run in which some call returned leaves a map that is made
  and not empty; and on every registry whose map is made, is not empty and has no entry
  for the message's type, both return, without calling anything, the error
  \<^verbatim>\<open>msgmux: no handler registered for message %v\<close> formatted with the name of the
  message's type.
\<close>

theorem dispatch_without_handler:
  assumes "Kind (dynType t) = KStruct"
  shows
   "(None \<notin> set (fst (HandleAll NewDispatchMux fns)) \<longrightarrow>
       DispatchContext (snd (HandleAll NewDispatchMux fns)) ctx (Some t) = ([], Inr None) \<and>
       Dispatch (snd (HandleAll NewDispatchMux fns)) (Some t) = ([], Inr None)) \<and>
    (None \<in> set (fst (HandleAll NewDispatchMux fns)) \<longrightarrow>
       (\<exists>hs. handlers (snd (HandleAll NewDispatchMux fns)) = Some hs \<and> hs \<noteq> Map.empty)) \<and>
    (handlers m = Some hs \<and> hs \<noteq> Map.empty \<and> hs (dynType t) = None \<longrightarrow>
       DispatchContext m ctx (Some t) =
         ([], Inr (Some (Errorf ''msgmux: no handler registered for message %v''
                           [ArgString (Name (dynType t))]))) \<and>
       Dispatch m (Some t) =
         ([], Inr (Some (Errorf ''msgmux: no handler registered for message %v''
                           [ArgString (Name (dynType t))]))))"
proof (intro conjI impI)
  assume "None \<notin> set (fst (HandleAll NewDispatchMux fns))"
  then have "handlers (snd (HandleAll NewDispatchMux fns)) = None"
    by (simp add: HandleAll_all_failed NewDispatchMux_def)
  then show "DispatchContext (snd (HandleAll NewDispatchMux fns)) ctx (Some t) = ([], Inr None)"
    and "Dispatch (snd (HandleAll NewDispatchMux fns)) (Some t) = ([], Inr None)"
    using assms by (simp_all add: Dispatch_def DispatchContext_struct)
next
  assume "None \<in> set (fst (HandleAll NewDispatchMux fns))"
  from HandleAll_some_succeeded [OF this] obtain T h
    where "entries (snd (HandleAll NewDispatchMux fns)) T = Some h" by blast
  from entries_Some_handlers [OF this]
  show "\<exists>hs. handlers (snd (HandleAll NewDispatchMux fns)) = Some hs \<and> hs \<noteq> Map.empty"
    by auto
next
  assume h: "handlers m = Some hs \<and> hs \<noteq> Map.empty \<and> hs (dynType t) = None"
  then show "DispatchContext m ctx (Some t) =
         ([], Inr (Some (Errorf ''msgmux: no handler registered for message %v''
                           [ArgString (Name (dynType t))])))"
    and "Dispatch m (Some t) =
         ([], Inr (Some (Errorf ''msgmux: no handler registered for message %v''
                           [ArgString (Name (dynType t))])))"
    using assms by (simp_all add: Dispatch_def DispatchContext_struct)
qed

text \<open>
  C1 on the values of the tests: a \<^verbatim>\<open>ShipOrder\<close> message, first after a run whose only
  registration (of the nil candidate) panicked, then on the registry that holds the
  handler for \<^verbatim>\<open>OrderCompleted\<close> alone.
\<close>

theorem dispatch_without_handler_witness:
  "Kind (dynType ship123) = KStruct \<and>
   None \<notin> set (fst (HandleAll NewDispatchMux [None])) \<and>
   Dispatch (snd (HandleAll NewDispatchMux [None])) (Some ship123) = ([], Inr None) \<and>
   None \<in> set (fst (HandleAll NewDispatchMux [Some onOrderCompleted])) \<and>
   Dispatch \<lparr>handlers = Some [OrderCompleted \<mapsto> Some onOrderCompleted]\<rparr> (Some ship123) =
     ([], Inr (Some (Errorf ''msgmux: no handler registered for message %v''
                       [ArgString ''ShipOrder''])))"
proof -
  have k: "Kind (dynType ship123) = KStruct"
    by (simp add: ship123_def ShipOrder_def)
  have n: "Name (dynType ship123) = ''ShipOrder''"
    by (simp add: ship123_def ShipOrder_def)
  have a: "None \<notin> set (fst (HandleAll NewDispatchMux [None]))"
    by (simp add: Handle_def validateHandler_def TypeOfHandler_def)
  have b: "None \<in> set (fst (HandleAll NewDispatchMux [Some onOrderCompleted]))"
    by (simp add: Handle_first)
  let ?hs = "[OrderCompleted \<mapsto> Some onOrderCompleted]"
  have c: "handlers \<lparr>handlers = Some ?hs\<rparr> = Some ?hs \<and> ?hs \<noteq> Map.empty \<and>
           ?hs (dynType ship123) = None"
    by (simp add: ship123_def ShipOrder_def OrderCompleted_def)
  from a dispatch_without_handler [OF k, where fns = "[None]"]
  have 1: "Dispatch (snd (HandleAll NewDispatchMux [None])) (Some ship123) = ([], Inr None)"
    by blast
  from c dispatch_without_handler [OF k, where m = "\<lparr>handlers = Some ?hs\<rparr>" and hs = ?hs]
  have 2: "Dispatch \<lparr>handlers = Some ?hs\<rparr> (Some ship123) =
     ([], Inr (Some (Errorf ''msgmux: no handler registered for message %v''
                       [ArgString ''ShipOrder''])))"
    unfolding n by blast
  from k a b 1 2 show ?thesis by blast
qed

section \<open>Dispatching to a registered handler\<close>

text \<open>
  Where a dispatch does reach the handler. Let the registry be built from
  \<^verbatim>\<open>NewDispatchMux\<close> by calls of \<^verbatim>\<open>Handle\<close>, let it hold the handler \<open>H\<close> for the type of the message \<open>t\<close>, let
  \<open>H\<close> be a function that is not nil, and, when \<open>H\<close> has two parameters, let the
  context be non-nil with a dynamic type that implements the type of the first
  parameter. Then \<^verbatim>\<open>DispatchContext\<close> enters \<open>H\<close> exactly once and nothing else,
  with \<open>t\<close> itself as the last argument, and the type of the message parameter of
  \<open>H\<close> is the dynamic type of \<open>t\<close>. A panic of \<open>H\<close> is the panic of the dispatch;
  when \<open>H\<close> returns nil the dispatch returns nil; when \<open>H\<close> returns a non-nil value
  whose type implements the predeclared \<^verbatim>\<open>error\<close>, the dispatch returns that very
  value. \<^verbatim>\<open>Dispatch\<close> is the case of the context \<^verbatim>\<open>context.Background()\<close>.
\<close>

lemma dispatch_invokes_registered_handler:
  assumes built: "m = snd (HandleAll NewDispatchMux fns)"
    and reg: "entries m (dynType t) = Some (Some H)"
    and fn: "hBody H = Some body"
    and ctx: "NumIn (hType H) = 2 \<longrightarrow>
                (\<exists>c. ctx = Some c \<and> Implements (dynType c) (In (hType H) ! 0))"
  shows
   "fst (DispatchContext m ctx (Some t)) = [(H, handlerArgs H ctx (Some t))] \<and>
    last (handlerArgs H ctx (Some t)) = Some t \<and>
    msgTypeOf (hType H) = Some (dynType t) \<and>
    (\<forall>p. body (handlerArgs H ctx (Some t)) = Inl p \<longrightarrow>
       snd (DispatchContext m ctx (Some t)) = Inl p) \<and>
    (\<forall>rs. body (handlerArgs H ctx (Some t)) = Inr (None # rs) \<longrightarrow>
       snd (DispatchContext m ctx (Some t)) = Inr None) \<and>
    (\<forall>e rs. body (handlerArgs H ctx (Some t)) = Inr (Some e # rs) \<and>
            Implements (dynType e) errorType \<longrightarrow>
       snd (DispatchContext m ctx (Some t)) = Inr (Some e)) \<and>
    (ctx = Background \<longrightarrow> Dispatch m (Some t) = DispatchContext m ctx (Some t))"
proof -
  have "wellFormed m"
    unfolding built by (rule wellFormed_HandleAll [OF wellFormed_New])
  with reg have v: "validateHandler (Some H) = Inr None"
    and T: "msgTypeOf (hType H) = Some (dynType t)"
    by (auto simp: wellFormed_def TypeOfHandler_def)
  from v have "checkIn (hType H) = None"
    by (auto simp: validateHandler_ok)
  from checkIn_msgTypeOf [OF this] T have k: "Kind (dynType t) = KStruct"
    by auto
  have d: "DispatchContext m ctx (Some t) = invokeHandler ctx (Some H) (Some t)"
    by (rule DispatchContext_registered [OF reg k])
  note iv = invokeHandler_valid [OF v fn T ctx]
  have e: "ctx = Background \<longrightarrow> Dispatch m (Some t) = DispatchContext m ctx (Some t)"
    by (simp add: Dispatch_def)
  have l: "last (handlerArgs H ctx (Some t)) = Some t"
    by (simp add: handlerArgs_def)
  from e l T show ?thesis
    by (simp add: d iv)
qed

subsection \<open>More handlers of the tests and the examples\<close>

lemma valid_onCancelOrder: "validateHandler (Some onCancelOrder) = Inr None"
  by (simp add: validateHandler_ok checkIn_ok checkOut_ok onCancelOrder_def funcType_def
      NumIn_def NumOut_def CancelOrder_def errorType_def)

lemma msgTypeOf_onCancelOrder: "msgTypeOf (hType onCancelOrder) = Some CancelOrder"
  by (simp add: msgTypeOf_def onCancelOrder_def funcType_def NumIn_def)

lemma Handle_firstCtx:
  "Handle NewDispatchMux (Some onOrderCompletedCtx) =
     (None, \<lparr>handlers = Some [OrderCompleted \<mapsto> Some onOrderCompletedCtx]\<rparr>)"
  using Handle_fresh [OF valid_onOrderCompletedCtx msgTypeOf_onOrderCompletedCtx, of NewDispatchMux]
  by (simp add: entries_def NewDispatchMux_def)

lemma CancelOrder_neq: "CancelOrder \<noteq> OrderCompleted"
  by (simp add: CancelOrder_def OrderCompleted_def)

lemma Handle_second:
  "Handle \<lparr>handlers = Some [OrderCompleted \<mapsto> Some onOrderCompletedCtx]\<rparr> (Some onCancelOrder) =
     (None, \<lparr>handlers = Some [OrderCompleted \<mapsto> Some onOrderCompletedCtx,
                              CancelOrder \<mapsto> Some onCancelOrder]\<rparr>)"
  using Handle_fresh [OF valid_onCancelOrder msgTypeOf_onCancelOrder,
      of "\<lparr>handlers = Some [OrderCompleted \<mapsto> Some onOrderCompletedCtx]\<rparr>"]
  by (simp add: entries_def CancelOrder_neq)

lemma HandleAll_two:
  "HandleAll NewDispatchMux [Some onOrderCompletedCtx, Some onCancelOrder] =
     ([None, None], \<lparr>handlers = Some [OrderCompleted \<mapsto> Some onOrderCompletedCtx,
                                      CancelOrder \<mapsto> Some onCancelOrder]\<rparr>)"
  by (simp add: Handle_firstCtx Handle_second)

lemma Implements_more_methods:
  "Methods t = Methods u @ ms \<Longrightarrow> Implements t u"
  by (auto simp: Implements_def)

lemma Implements_traceContext: "Implements traceContextType contextType"
  by (rule Implements_more_methods [of _ _ "[(''TraceID'', ''func() string'')]"])
    (simp add: traceContextType_def)

lemma valid_onOrderCompletedTrace: "validateHandler (Some onOrderCompletedTrace) = Inr None"
  using Implements_traceContext
  by (simp add: validateHandler_ok checkIn_ok checkOut_ok onOrderCompletedTrace_def funcType_def
      NumIn_def NumOut_def)
    (simp add: OrderCompleted_def errorType_def traceContextType_def)

lemma not_Implements_background_trace: "\<not> Implements backgroundCtxType traceContextType"
  by (simp add: Implements_def backgroundCtxType_def traceContextType_def)

lemma not_AssignableTo_background_trace: "\<not> AssignableTo backgroundCtxType traceContextType"
  using not_Implements_background_trace
  by (simp add: AssignableTo_def) (simp add: backgroundCtxType_def traceContextType_def)

lemma msgTypeOf_onOrderCompletedTrace:
  "msgTypeOf (hType onOrderCompletedTrace) = Some OrderCompleted"
  by (simp add: msgTypeOf_def onOrderCompletedTrace_def funcType_def NumIn_def)

lemma Handle_firstTrace:
  "Handle NewDispatchMux (Some onOrderCompletedTrace) =
     (None, \<lparr>handlers = Some [OrderCompleted \<mapsto> Some onOrderCompletedTrace]\<rparr>)"
  using Handle_fresh [OF valid_onOrderCompletedTrace msgTypeOf_onOrderCompletedTrace,
      of NewDispatchMux]
  by (simp add: entries_def NewDispatchMux_def)

text \<open>
  Two more dispatches that never reach a registered handler. With
  \<^verbatim>\<open>func(ctx context.Context, event OrderCompleted) error\<close> registered, a dispatch
  with the nil context panics in \<^verbatim>\<open>Call\<close> on the zero Value. A nil value of the type
  \<^verbatim>\<open>func(event OrderCompleted) error\<close> passes \<^verbatim>\<open>validateHandler\<close>, which looks
  at the type only, and is registered; a dispatch then panics in \<^verbatim>\<open>Call\<close> on the nil
  function.
\<close>

lemma DispatchContext_nil_context_panics:
  "entries (snd (Handle NewDispatchMux (Some onOrderCompletedCtx))) (dynType order123)
     = Some (Some onOrderCompletedCtx) \<and>
   DispatchContext (snd (Handle NewDispatchMux (Some onOrderCompletedCtx))) None (Some order123)
     = ([], Inl (ReflectPanic ''reflect: Call using zero Value argument''))"
proof -
  have t: "dynType order123 = OrderCompleted" "Kind OrderCompleted = KStruct"
    by (simp_all add: order123_def OrderCompleted_def)
  have "invokeHandler None (Some onOrderCompletedCtx) (Some order123) =
      ([], Inl (ReflectPanic ''reflect: Call using zero Value argument''))"
    by (simp add: invokeHandler_def Call_def ValueOf_def onOrderCompletedCtx_def funcType_def
        NumIn_def)
  then show ?thesis
    by (simp add: Handle_firstCtx t entries_def DispatchContext_struct)
qed

lemma valid_onOrderCompletedNil: "validateHandler (Some onOrderCompletedNil) = Inr None"
  by (simp add: validateHandler_ok checkIn_ok checkOut_ok onOrderCompletedNil_def funcType_def
      NumIn_def NumOut_def OrderCompleted_def errorType_def)

lemma msgTypeOf_onOrderCompletedNil:
  "msgTypeOf (hType onOrderCompletedNil) = Some OrderCompleted"
  by (simp add: msgTypeOf_def onOrderCompletedNil_def funcType_def NumIn_def)

lemma Handle_firstNil:
  "Handle NewDispatchMux (Some onOrderCompletedNil) =
     (None, \<lparr>handlers = Some [OrderCompleted \<mapsto> Some onOrderCompletedNil]\<rparr>)"
  using Handle_fresh [OF valid_onOrderCompletedNil msgTypeOf_onOrderCompletedNil,
      of NewDispatchMux]
  by (simp add: entries_def NewDispatchMux_def)

lemma Dispatch_nil_function_panics:
  "validateHandler (Some onOrderCompletedNil) = Inr None \<and>
   fst (Handle NewDispatchMux (Some onOrderCompletedNil)) = None \<and>
   Dispatch (snd (Handle NewDispatchMux (Some onOrderCompletedNil))) (Some order123)
     = ([], Inl (ReflectPanic ''reflect.Value.Call: call of nil function''))"
proof -
  have t: "dynType order123 = OrderCompleted" "Kind OrderCompleted = KStruct"
    by (simp_all add: order123_def OrderCompleted_def)
  have "invokeHandler Background (Some onOrderCompletedNil) (Some order123) =
      ([], Inl (ReflectPanic ''reflect.Value.Call: call of nil function''))"
    by (simp add: invokeHandler_def Call_def ValueOf_def onOrderCompletedNil_def funcType_def
        NumIn_def)
  then show ?thesis
    by (simp add: valid_onOrderCompletedNil Handle_firstNil t DispatchContext_struct Dispatch_def)
qed

lemma invoke_onOrderCompletedTrace:
  "\<not> Implements (dynType c) traceContextType \<Longrightarrow> dynType c \<noteq> traceContextType \<Longrightarrow>
   invokeHandler (Some c) (Some onOrderCompletedTrace) (Some order123) =
     ([], Inl (ReflectPanic ''reflect: Call using argument of unassignable type''))"
  by (simp add: invokeHandler_def Call_def ValueOf_def onOrderCompletedTrace_def funcType_def
      NumIn_def AssignableTo_def)

lemma traceContext_not_documented_form:
  "In (hType onOrderCompletedTrace) ! 0 = traceContextType" "traceContextType \<noteq> contextType"
  "NumIn (hType onOrderCompletedTrace) = 2"
  "hBody onOrderCompletedTrace = Some (\<lambda>args. Inr [None])"
  by (simp_all add: onOrderCompletedTrace_def funcType_def NumIn_def traceContextType_def
      contextType_def)

text \<open>
  C2. The claim fails for a handler that \<^verbatim>\<open>Handle\<close> accepts although its first
  parameter is not \<^verbatim>\<open>context.Context\<close>:
  \<^verbatim>\<open>func(ctx traceContext, event OrderCompleted) error { return nil }\<close>, where
  \<^verbatim>\<open>traceContext\<close> is an interface with the methods of \<^verbatim>\<open>context.Context\<close> and one
  more. \<^verbatim>\<open>validateHandler\<close> returns nil for it, \<^verbatim>\<open>Handle\<close> on the fresh registry
  returns and registers it for \<^verbatim>\<open>OrderCompleted\<close>, and
  \<^verbatim>\<open>Dispatch(OrderCompleted{OrderID: "order-123"})\<close> then panics in \<^verbatim>\<open>Call\<close>, since
  the background context cannot be assigned to the first parameter: the handler, which
  would return nil, is never entered, and the dispatch does not return.
\<close>

theorem Dispatch_never_enters_accepted_traceContext_handler:
  "validateHandler (Some onOrderCompletedTrace) = Inr None \<and>
   In (hType onOrderCompletedTrace) ! 0 \<noteq> contextType \<and>
   hBody onOrderCompletedTrace = Some (\<lambda>args. Inr [None]) \<and>
   fst (Handle NewDispatchMux (Some onOrderCompletedTrace)) = None \<and>
   entries (snd (Handle NewDispatchMux (Some onOrderCompletedTrace))) (dynType order123)
     = Some (Some onOrderCompletedTrace) \<and>
   Dispatch (snd (Handle NewDispatchMux (Some onOrderCompletedTrace))) (Some order123)
     = ([], Inl (ReflectPanic ''reflect: Call using argument of unassignable type''))"
proof -
  have t: "dynType order123 = OrderCompleted" "Kind OrderCompleted = KStruct"
    by (simp_all add: order123_def OrderCompleted_def)
  have b: "\<not> Implements (dynType (Val backgroundCtxType (Opaque ''context.Background''))) traceContextType"
    "dynType (Val backgroundCtxType (Opaque ''context.Background'')) \<noteq> traceContextType"
    using not_Implements_background_trace
    by (simp_all add: backgroundCtxType_def traceContextType_def)
  have i: "invokeHandler Background (Some onOrderCompletedTrace) (Some order123) =
      ([], Inl (ReflectPanic ''reflect: Call using argument of unassignable type''))"
    unfolding Background_def by (rule invoke_onOrderCompletedTrace [OF b])
  show ?thesis
    by (simp add: valid_onOrderCompletedTrace traceContext_not_documented_form Handle_firstTrace
        t entries_def DispatchContext_struct Dispatch_def i)
qed

text \<open>
  On the registry of two handlers: \<^verbatim>\<open>OrderCompleted\<close> goes to the
  handler with a context parameter, which receives the cancellable context it was
  dispatched with and returns nil; \<^verbatim>\<open>CancelOrder\<close> goes to the handler that returns
  the error \<^verbatim>\<open>too late\<close>, and the dispatch returns that error.
\<close>

lemma dispatch_invokes_registered_handler_example:
  "fst (DispatchContext \<lparr>handlers = Some [OrderCompleted \<mapsto> Some onOrderCompletedCtx,
                                          CancelOrder \<mapsto> Some onCancelOrder]\<rparr>
          (Some ctx1) (Some order123))
     = [(onOrderCompletedCtx, [Some ctx1, Some order123])] \<and>
   snd (DispatchContext \<lparr>handlers = Some [OrderCompleted \<mapsto> Some onOrderCompletedCtx,
                                          CancelOrder \<mapsto> Some onCancelOrder]\<rparr>
          (Some ctx1) (Some order123)) = Inr None \<and>
   fst (DispatchContext \<lparr>handlers = Some [OrderCompleted \<mapsto> Some onOrderCompletedCtx,
                                          CancelOrder \<mapsto> Some onCancelOrder]\<rparr>
          Background (Some cancel123))
     = [(onCancelOrder, [Some cancel123])] \<and>
   snd (DispatchContext \<lparr>handlers = Some [OrderCompleted \<mapsto> Some onOrderCompletedCtx,
                                          CancelOrder \<mapsto> Some onCancelOrder]\<rparr>
          Background (Some cancel123)) = Inr (Some tooLate)"
proof -
  let ?m = "\<lparr>handlers = Some [OrderCompleted \<mapsto> Some onOrderCompletedCtx,
                              CancelOrder \<mapsto> Some onCancelOrder]\<rparr>"
  let ?fns = "[Some onOrderCompletedCtx, Some onCancelOrder]"
  have built: "?m = snd (HandleAll NewDispatchMux ?fns)"
    by (simp only: HandleAll_two snd_conv)
  have reg1: "entries ?m (dynType order123) = Some (Some onOrderCompletedCtx)"
    by (simp add: entries_def order123_def CancelOrder_neq CancelOrder_neq [symmetric])
  have reg2: "entries ?m (dynType cancel123) = Some (Some onCancelOrder)"
    by (simp add: entries_def cancel123_def)
  have n1: "NumIn (hType onOrderCompletedCtx) = 2" "In (hType onOrderCompletedCtx) ! 0 = contextType"
    by (simp_all add: onOrderCompletedCtx_def funcType_def NumIn_def)
  have n2: "NumIn (hType onCancelOrder) = 1"
    by (simp add: onCancelOrder_def funcType_def NumIn_def)
  have c1: "NumIn (hType onOrderCompletedCtx) = 2 \<longrightarrow>
      (\<exists>c. Some ctx1 = Some c \<and> Implements (dynType c) (In (hType onOrderCompletedCtx) ! 0))"
    by (auto simp: n1 ctx1_def cancelCtxType_def Implements_def)
  have c2: "NumIn (hType onCancelOrder) = 2 \<longrightarrow>
      (\<exists>c. Background = Some c \<and> Implements (dynType c) (In (hType onCancelOrder) ! 0))"
    by (simp add: n2)
  have a1: "handlerArgs onOrderCompletedCtx (Some ctx1) (Some order123) = [Some ctx1, Some order123]"
    by (simp add: handlerArgs_def n1)
  have a2: "handlerArgs onCancelOrder Background (Some cancel123) = [Some cancel123]"
    by (simp add: handlerArgs_def n2)
  have f1: "hBody onOrderCompletedCtx = Some (\<lambda>args. Inr [None])"
    by (simp add: onOrderCompletedCtx_def)
  have f2: "hBody onCancelOrder = Some (\<lambda>args. Inr [Some tooLate])"
    by (simp add: onCancelOrder_def)
  have b2: "Implements (dynType tooLate) errorType"
    by (simp add: tooLate_def errorStringType_def errorType_def Implements_def)
  note r1 = dispatch_invokes_registered_handler [OF built reg1 f1 c1, unfolded a1]
  note r2 = dispatch_invokes_registered_handler [OF built reg2 f2 c2, unfolded a2]
  from r1 have 1: "fst (DispatchContext ?m (Some ctx1) (Some order123))
             = [(onOrderCompletedCtx, [Some ctx1, Some order123])]"
    by (rule conjunct1)
  from r1 have 2: "snd (DispatchContext ?m (Some ctx1) (Some order123)) = Inr None"
    by simp
  from r2 have 3: "fst (DispatchContext ?m Background (Some cancel123))
             = [(onCancelOrder, [Some cancel123])]"
    by (rule conjunct1)
  from r2 b2 have 4: "snd (DispatchContext ?m Background (Some cancel123)) = Inr (Some tooLate)"
    by simp
  from 1 2 3 4 show ?thesis by (intro conjI)
qed

section \<open>Dispatching what is not a struct value\<close>

text \<open>
  C7. The claim fails at the nil message, and only there (see C9): on the fresh registry
  \<^verbatim>\<open>Dispatch(nil)\<close> and \<^verbatim>\<open>DispatchContext(context.Background(), nil)\<close> panic with a
  nil pointer dereference, where the comment on \<^verbatim>\<open>DispatchContext\<close> promises an error
  for a message that is not valid.
\<close>

theorem Dispatch_nil_panics_on_fresh_mux:
  "Dispatch NewDispatchMux None = ([], Inl NilPointerDereference) \<and>
   DispatchContext NewDispatchMux Background None = ([], Inl NilPointerDereference)"
  by (simp add: Dispatch_def DispatchContext_def TypeOf_def)

text \<open>
  C9. On every registry and with every context, \<^verbatim>\<open>DispatchContext\<close> and
  \<^verbatim>\<open>Dispatch\<close> panic on the nil message with a nil pointer dereference and call
  nothing; and for every non-nil message whose dynamic type is not a struct type they
  return, without calling anything, the error \<^verbatim>\<open>msgmux: msg should be a struct (got: %v)\<close>
  formatted with the kind of that type.
\<close>

theorem Dispatch_nil_message:
  "DispatchContext m ctx None = ([], Inl NilPointerDereference) \<and>
   Dispatch m None = ([], Inl NilPointerDereference) \<and>
   (\<forall>v. Kind (dynType v) \<noteq> KStruct \<longrightarrow>
      DispatchContext m ctx (Some v) =
        ([], Inr (Some (Errorf ''msgmux: msg should be a struct (got: %v)''
                          [ArgKind (Kind (dynType v))]))) \<and>
      Dispatch m (Some v) =
        ([], Inr (Some (Errorf ''msgmux: msg should be a struct (got: %v)''
                          [ArgKind (Kind (dynType v))]))))"
  by (simp add: Dispatch_def DispatchContext_def TypeOf_def)

text \<open>
  C9 on a string message on the fresh registry, and on the nil message on a registry
  that holds a handler.
\<close>

theorem Dispatch_nil_message_witness:
  "Kind (dynType (Val stringType (Opaque ''order-123''))) \<noteq> KStruct \<and>
   Dispatch NewDispatchMux (Some (Val stringType (Opaque ''order-123''))) =
     ([], Inr (Some (Errorf ''msgmux: msg should be a struct (got: %v)'' [ArgKind KString]))) \<and>
   DispatchContext \<lparr>handlers = Some [OrderCompleted \<mapsto> Some onOrderCompleted]\<rparr> Background None =
     ([], Inl NilPointerDereference)"
proof -
  let ?v = "Val stringType (Opaque ''order-123'')"
  have k: "Kind (dynType ?v) \<noteq> KStruct" "Kind (dynType ?v) = KString"
    by (simp_all add: stringType_def)
  from k(1) Dispatch_nil_message [of NewDispatchMux Background]
  have "Dispatch NewDispatchMux (Some ?v) =
     ([], Inr (Some (Errorf ''msgmux: msg should be a struct (got: %v)''
                       [ArgKind (Kind (dynType ?v))])))"
    by blast
  then have 1: "Dispatch NewDispatchMux (Some ?v) =
     ([], Inr (Some (Errorf ''msgmux: msg should be a struct (got: %v)'' [ArgKind KString])))"
    unfolding k(2) .
  from Dispatch_nil_message [of "\<lparr>handlers = Some [OrderCompleted \<mapsto> Some onOrderCompleted]\<rparr>" Background]
  have 2: "DispatchContext \<lparr>handlers = Some [OrderCompleted \<mapsto> Some onOrderCompleted]\<rparr> Background None =
     ([], Inl NilPointerDereference)"
    by blast
  from k(1) 1 2 show ?thesis by blast
qed

section \<open>Dispatch and DispatchContext\<close>

lemma DispatchContext_trace:
  assumes "(H, args) \<in> set (fst (DispatchContext m ctx msg))"
  shows "(\<exists>t. msg = Some t \<and> entries m (dynType t) = Some (Some H)) \<and>
         args = handlerArgs H ctx msg"
proof -
  from assms obtain t where t: "msg = Some t" "Kind (dynType t) = KStruct"
    by (cases msg) (auto simp: DispatchContext_def TypeOf_def split: if_splits)
  from assms t obtain h where h: "entries m (dynType t) = Some h"
    by (auto simp: DispatchContext_struct entries_def split: option.splits)
  from assms have "(H, args) \<in> set (fst (invokeHandler ctx h msg))"
    unfolding t(1) DispatchContext_registered [OF h t(2)] .
  from invokeHandler_trace [OF this] h t show ?thesis by simp
qed

text \<open>
  On every registry and for every message, \<^verbatim>\<open>Dispatch(msg)\<close> is
  \<^verbatim>\<open>DispatchContext(context.Background(), msg)\<close>: the same invocations and the same
  outcome. Every function a dispatch enters is the handler registered for the type of
  the message, and a handler of two parameters is entered with exactly the context the
  caller passed and the message: with \<^verbatim>\<open>ctx\<close> under \<^verbatim>\<open>DispatchContext\<close>, with the
  background context under \<^verbatim>\<open>Dispatch\<close>.
\<close>

lemma Dispatch_is_DispatchContext_Background:
  "Dispatch m msg = DispatchContext m Background msg \<and>
   (\<forall>(H, args) \<in> set (fst (DispatchContext m ctx msg)).
      (\<exists>t. msg = Some t \<and> entries m (dynType t) = Some (Some H)) \<and>
      (NumIn (hType H) = 2 \<longrightarrow> args = [ctx, msg])) \<and>
   (\<forall>(H, args) \<in> set (fst (Dispatch m msg)).
      (\<exists>t. msg = Some t \<and> entries m (dynType t) = Some (Some H)) \<and>
      (NumIn (hType H) = 2 \<longrightarrow> args = [Background, msg]))"
proof -
  have a: "(\<exists>t. msg = Some t \<and> entries m (dynType t) = Some (Some H)) \<and>
           (NumIn (hType H) = 2 \<longrightarrow> args = [c, msg])"
    if "(H, args) \<in> set (fst (DispatchContext m c msg))" for H args c
    using DispatchContext_trace [OF that] by (simp add: handlerArgs_def)
  have b: "Dispatch m msg = DispatchContext m Background msg"
    by (simp add: Dispatch_def)
  show ?thesis
    unfolding b using a by auto
qed

lemma Implements_cancelCtx: "Implements (dynType ctx1) contextType"
  by (auto simp: ctx1_def cancelCtxType_def Implements_def)

lemma Implements_background: "Implements backgroundCtxType contextType"
  by (auto simp: backgroundCtxType_def contextType_def Implements_def)

lemma invoke_onOrderCompletedCtx:
  "Implements (dynType c) contextType \<Longrightarrow>
   invokeHandler (Some c) (Some onOrderCompletedCtx) (Some order123) =
     ([(onOrderCompletedCtx, [Some c, Some order123])], Inr None)"
proof -
  assume c: "Implements (dynType c) contextType"
  have n: "NumIn (hType onOrderCompletedCtx) = 2" "In (hType onOrderCompletedCtx) ! 0 = contextType"
    by (simp_all add: onOrderCompletedCtx_def funcType_def NumIn_def)
  have T: "msgTypeOf (hType onOrderCompletedCtx) = Some (dynType order123)"
    by (simp add: msgTypeOf_onOrderCompletedCtx order123_def)
  from c have cx: "NumIn (hType onOrderCompletedCtx) = 2 \<longrightarrow>
      (\<exists>c'. Some c = Some c' \<and> Implements (dynType c') (In (hType onOrderCompletedCtx) ! 0))"
    by (simp add: n)
  have f: "hBody onOrderCompletedCtx = Some (\<lambda>args. Inr [None])"
    by (simp add: onOrderCompletedCtx_def)
  from invokeHandler_valid [OF valid_onOrderCompletedCtx f T cx]
  show ?thesis
    by (simp add: handlerArgs_def n)
qed

text \<open>
  On the registry that holds \<^verbatim>\<open>func(ctx context.Context, event OrderCompleted) error\<close>:
  the handler is entered with the cancellable context passed to \<^verbatim>\<open>DispatchContext\<close>,
  and with the background context under \<^verbatim>\<open>Dispatch\<close>.
\<close>

lemma Dispatch_is_DispatchContext_Background_example:
  "(onOrderCompletedCtx, [Some ctx1, Some order123]) \<in>
     set (fst (DispatchContext \<lparr>handlers = Some [OrderCompleted \<mapsto> Some onOrderCompletedCtx]\<rparr>
                 (Some ctx1) (Some order123))) \<and>
   (onOrderCompletedCtx, [Background, Some order123]) \<in>
     set (fst (Dispatch \<lparr>handlers = Some [OrderCompleted \<mapsto> Some onOrderCompletedCtx]\<rparr>
                 (Some order123))) \<and>
   NumIn (hType onOrderCompletedCtx) = 2 \<and>
   Dispatch \<lparr>handlers = Some [OrderCompleted \<mapsto> Some onOrderCompletedCtx]\<rparr> (Some order123)
     = ([(onOrderCompletedCtx, [Background, Some order123])], Inr None)"
proof -
  let ?m = "\<lparr>handlers = Some [OrderCompleted \<mapsto> Some onOrderCompletedCtx]\<rparr>"
  have t: "entries ?m (dynType order123) = Some (Some onOrderCompletedCtx)"
    "Kind (dynType order123) = KStruct"
    by (simp_all add: entries_def order123_def OrderCompleted_def)
  have n: "NumIn (hType onOrderCompletedCtx) = 2"
    by (simp add: onOrderCompletedCtx_def funcType_def NumIn_def)
  note inst = Dispatch_is_DispatchContext_Background [of ?m "Some order123"]
  have d1: "DispatchContext ?m (Some ctx1) (Some order123) =
      ([(onOrderCompletedCtx, [Some ctx1, Some order123])], Inr None)"
    unfolding DispatchContext_registered [OF t]
    by (rule invoke_onOrderCompletedCtx [OF Implements_cancelCtx])
  have d2: "DispatchContext ?m Background (Some order123) =
      ([(onOrderCompletedCtx, [Background, Some order123])], Inr None)"
    unfolding DispatchContext_registered [OF t] Background_def
    by (rule invoke_onOrderCompletedCtx) (simp add: Implements_background)
  from inst [of "Some ctx1"] have d3: "Dispatch ?m (Some order123) =
      ([(onOrderCompletedCtx, [Background, Some order123])], Inr None)"
    unfolding d2 by blast
  from d1 d3 n show ?thesis by simp
qed

lemma not_Implements_cancelCtx_trace:
  "\<not> Implements (dynType ctx1) traceContextType" "dynType ctx1 \<noteq> traceContextType"
  by (simp_all add: ctx1_def cancelCtxType_def traceContextType_def contextType_def
      Implements_def)

text \<open>
  C8. The first half holds: \<^verbatim>\<open>Dispatch(msg)\<close> is
  \<^verbatim>\<open>DispatchContext(context.Background(), msg)\<close> (see the lemma above). The second
  half fails for the handler of two parameters
  \<^verbatim>\<open>func(ctx traceContext, event OrderCompleted) error\<close> that \<^verbatim>\<open>Handle\<close> accepts and
  registers: \<^verbatim>\<open>DispatchContext\<close> with a context made by \<^verbatim>\<open>context.WithCancel\<close>, and
  \<^verbatim>\<open>Dispatch\<close> with its background context, both panic in \<^verbatim>\<open>Call\<close> and enter nothing,
  so the registered handler receives neither the context the caller passed nor the
  default one.
\<close>

theorem binary_handler_never_receives_context:
  "fst (Handle NewDispatchMux (Some onOrderCompletedTrace)) = None \<and>
   NumIn (hType onOrderCompletedTrace) = 2 \<and>
   entries (snd (Handle NewDispatchMux (Some onOrderCompletedTrace))) (dynType order123)
     = Some (Some onOrderCompletedTrace) \<and>
   Implements (dynType ctx1) contextType \<and>
   fst (DispatchContext (snd (Handle NewDispatchMux (Some onOrderCompletedTrace)))
          (Some ctx1) (Some order123)) = [] \<and>
   fst (Dispatch (snd (Handle NewDispatchMux (Some onOrderCompletedTrace))) (Some order123)) = [] \<and>
   Dispatch (snd (Handle NewDispatchMux (Some onOrderCompletedTrace))) (Some order123)
     = DispatchContext (snd (Handle NewDispatchMux (Some onOrderCompletedTrace)))
         Background (Some order123)"
proof -
  have t: "dynType order123 = OrderCompleted" "Kind OrderCompleted = KStruct"
    by (simp_all add: order123_def OrderCompleted_def)
  have b: "\<not> Implements (dynType (Val backgroundCtxType (Opaque ''context.Background''))) traceContextType"
    "dynType (Val backgroundCtxType (Opaque ''context.Background'')) \<noteq> traceContextType"
    using not_Implements_background_trace
    by (simp_all add: backgroundCtxType_def traceContextType_def)
  have i1: "invokeHandler (Some ctx1) (Some onOrderCompletedTrace) (Some order123) =
      ([], Inl (ReflectPanic ''reflect: Call using argument of unassignable type''))"
    by (rule invoke_onOrderCompletedTrace [OF not_Implements_cancelCtx_trace])
  have i2: "invokeHandler Background (Some onOrderCompletedTrace) (Some order123) =
      ([], Inl (ReflectPanic ''reflect: Call using argument of unassignable type''))"
    unfolding Background_def by (rule invoke_onOrderCompletedTrace [OF b])
  show ?thesis
    by (simp add: traceContext_not_documented_form Handle_firstTrace Implements_cancelCtx
        t entries_def DispatchContext_struct Dispatch_def i1 i2)
qed

section \<open>The shape of an accepted handler\<close>

subsection \<open>A result type that is only named error\<close>

lemma valid_onOrderCompletedOwnError:
  "validateHandler (Some onOrderCompletedOwnError) = Inr None"
  by (simp add: validateHandler_ok checkIn_ok checkOut_ok onOrderCompletedOwnError_def
      funcType_def NumIn_def NumOut_def OrderCompleted_def ownErrorType_def)

lemma msgTypeOf_onOrderCompletedOwnError:
  "msgTypeOf (hType onOrderCompletedOwnError) = Some OrderCompleted"
  by (simp add: msgTypeOf_def onOrderCompletedOwnError_def funcType_def NumIn_def)

lemma Handle_ownError:
  "Handle NewDispatchMux (Some onOrderCompletedOwnError) =
     (None, \<lparr>handlers = Some [OrderCompleted \<mapsto> Some onOrderCompletedOwnError]\<rparr>)"
  using Handle_fresh [OF valid_onOrderCompletedOwnError msgTypeOf_onOrderCompletedOwnError,
      of NewDispatchMux]
  by (simp add: entries_def NewDispatchMux_def)

lemma ownErrorType_facts:
  "Kind ownErrorType = KInterface" "Name ownErrorType = ''error''" "ownErrorType \<noteq> errorType"
  "\<not> Implements ownErrorType errorType"
  "Implements (dynType status0) ownErrorType" "\<not> Implements (dynType status0) errorType"
  by (simp_all add: ownErrorType_def errorType_def Implements_def status0_def statusType_def)

text \<open>
  What \<^verbatim>\<open>Handle\<close> checks before it returns: a call returns only for a function of
  one parameter of a struct type, or of two parameters, the first of an interface type
  that implements \<^verbatim>\<open>context.Context\<close> and the second of a struct type, with one
  result of an interface type whose name is \<^verbatim>\<open>error\<close>, and only when the message
  type has no handler yet; and it does return for the two documented forms
  \<^verbatim>\<open>func(msg T) error\<close> and \<^verbatim>\<open>func(ctx context.Context, msg T) error\<close>.
\<close>

lemma Handle_returns_only_for_accepted_shape:
  assumes "fst (Handle m fn) = None"
  shows "\<exists>f T. fn = Some f \<and> Kind (hType f) = KFunc \<and>
           (NumIn (hType f) = 1 \<or>
            NumIn (hType f) = 2 \<and> Kind (In (hType f) ! 0) = KInterface \<and>
              Implements (In (hType f) ! 0) contextType) \<and>
           msgTypeOf (hType f) = Some T \<and> Kind T = KStruct \<and> entries m T = None \<and>
           NumOut (hType f) = 1 \<and> Kind (Out (hType f) ! 0) = KInterface \<and>
           Name (Out (hType f) ! 0) = ''error''"
proof -
  from assms have v: "validateHandler fn = Inr None"
    using Handle_invalid by blast
  then obtain f where f: "fn = Some f" "Kind (hType f) = KFunc" "checkIn (hType f) = None"
    "checkOut (hType f) = None"
    by (auto simp: validateHandler_ok)
  from checkIn_msgTypeOf [OF f(3)] obtain T where T: "msgTypeOf (hType f) = Some T" "Kind T = KStruct"
    by blast
  have "entries m T = None"
  proof (cases "entries m T")
    case (Some g)
    from Handle_duplicate [OF v [unfolded f(1)] T(1) Some] assms f(1) show ?thesis by simp
  qed simp
  with f T show ?thesis
    by (auto simp: checkIn_ok checkOut_ok)
qed

lemma Handle_accepts_documented_shapes:
  assumes "hType f = funcType [T] [errorType] \<or> hType f = funcType [contextType, T] [errorType]"
    and "Kind T = KStruct" and "entries m T = None"
  shows "validateHandler (Some f) = Inr None \<and> fst (Handle m (Some f)) = None \<and>
         entries (snd (Handle m (Some f))) T = Some (Some f)"
proof -
  from assms(1,2) have v: "validateHandler (Some f) = Inr None"
    by (auto simp: validateHandler_ok checkIn_ok checkOut_ok funcType_def NumIn_def NumOut_def
        errorType_def contextType_def Implements_def)
  from assms(1) have T: "msgTypeOf (hType f) = Some T"
    by (auto simp: msgTypeOf_def funcType_def NumIn_def)
  from Handle_fresh [OF v T assms(3)] v show ?thesis
    by (simp add: entries_def)
qed

text \<open>
  C4. The claim fails for a result type that is not \<^verbatim>\<open>error\<close> but is an interface
  named \<^verbatim>\<open>error\<close>: \<^verbatim>\<open>Handle\<close> on the fresh registry returns for the function
  \<^verbatim>\<open>func(e OrderCompleted) error\<close> of a package that declares its own
  \<^verbatim>\<open>type error interface { Code() int }\<close>, although the results of that function are
  not the one result of type \<^verbatim>\<open>error\<close>.
\<close>

theorem Handle_accepts_own_error_type:
  "fst (Handle NewDispatchMux (Some onOrderCompletedOwnError)) = None \<and>
   Kind (hType onOrderCompletedOwnError) = KFunc \<and>
   Out (hType onOrderCompletedOwnError) \<noteq> [errorType]"
  by (simp add: Handle_ownError)
    (simp add: onOrderCompletedOwnError_def funcType_def ownErrorType_facts)

text \<open>
  C5. The claim fails at the same function: it has exactly one result, of an interface
  type that is not the predeclared \<^verbatim>\<open>error\<close> and does not implement it, and
  \<^verbatim>\<open>validateHandler\<close> returns nil for it, since it compares the name of the result
  type only.
\<close>

theorem validateHandler_accepts_own_error_type:
  "validateHandler (Some onOrderCompletedOwnError) = Inr None \<and>
   NumOut (hType onOrderCompletedOwnError) = 1 \<and>
   Out (hType onOrderCompletedOwnError) ! 0 = ownErrorType \<and>
   ownErrorType \<noteq> errorType \<and> \<not> Implements ownErrorType errorType"
  by (simp add: valid_onOrderCompletedOwnError ownErrorType_facts)
    (simp add: onOrderCompletedOwnError_def funcType_def NumOut_def)

subsection \<open>The first of two parameters\<close>

lemma contextError_Errorf:
  "contextError (Some (Errorf f args)) \<longleftrightarrow>
     f = ''msgmux: fn MessageHandler 1st input parameter should be an context.Context (got: %v)''
   \<or> f = ''msgmux: fn MessageHandler 1st input parameter should be context.Context (got: %v)''"
  by (simp add: Errorf_def)

text \<open>
  C6, as amended. For a function of two parameters, \<^verbatim>\<open>validateHandler\<close> returns one
  of its two errors about the first parameter exactly when the type of that parameter
  is not both an interface type and an implementation of \<^verbatim>\<open>context.Context\<close>: the
  first parameter is accepted if and only if its type is an interface type that
  implements \<^verbatim>\<open>context.Context\<close>.
\<close>

theorem validateHandler_first_of_two_parameters:
  assumes "Kind (hType f) = KFunc" and "NumIn (hType f) = 2"
  shows "(\<exists>e. validateHandler (Some f) = Inr e \<and> contextError e) \<longleftrightarrow>
           \<not> (Kind (In (hType f) ! 0) = KInterface \<and> Implements (In (hType f) ! 0) contextType)"
  using assms
  by (simp add: validateHandler_def TypeOfHandler_def checkIn_def checkOut_def
      contextError_Errorf split: option.splits)

text \<open>
  C6 as stated fails for a first parameter of a type that implements
  \<^verbatim>\<open>context.Context\<close> and is not an interface type: for
  \<^verbatim>\<open>func(ctx myCtx, event OrderCompleted) error\<close>, with the struct type \<^verbatim>\<open>myCtx\<close>
  that has the four methods, \<^verbatim>\<open>validateHandler\<close> returns the error of the check
  \<^verbatim>\<open>fnType.In(0).Kind() != reflect.Interface\<close>.
\<close>

theorem validateHandler_rejects_struct_context_counterexample:
  "Kind (hType onOrderCompletedMyCtx) = KFunc \<and>
   NumIn (hType onOrderCompletedMyCtx) = 2 \<and>
   In (hType onOrderCompletedMyCtx) ! 0 = myCtxType \<and>
   Implements myCtxType contextType \<and>
   validateHandler (Some onOrderCompletedMyCtx) =
     Inr (Some (Errorf
       ''msgmux: fn MessageHandler 1st input parameter should be an context.Context (got: %v)''
       [ArgKind KStruct]))"
  by (simp add: onOrderCompletedMyCtx_def funcType_def NumIn_def myCtxType_def Implements_def
      validateHandler_def TypeOfHandler_def checkIn_def)

text \<open>
  The amended C6 on the two handlers: \<^verbatim>\<open>context.Context\<close> as the first parameter
  gives no error about it, \<^verbatim>\<open>myCtx\<close> gives one.
\<close>

theorem validateHandler_first_of_two_parameters_witness:
  "Kind (hType onOrderCompletedCtx) = KFunc \<and> NumIn (hType onOrderCompletedCtx) = 2 \<and>
   \<not> (\<exists>e. validateHandler (Some onOrderCompletedCtx) = Inr e \<and> contextError e) \<and>
   Kind (hType onOrderCompletedMyCtx) = KFunc \<and> NumIn (hType onOrderCompletedMyCtx) = 2 \<and>
   (\<exists>e. validateHandler (Some onOrderCompletedMyCtx) = Inr e \<and> contextError e)"
proof -
  have a: "Kind (hType onOrderCompletedCtx) = KFunc" "NumIn (hType onOrderCompletedCtx) = 2"
    "Kind (In (hType onOrderCompletedCtx) ! 0) = KInterface"
    "Implements (In (hType onOrderCompletedCtx) ! 0) contextType"
    by (simp_all add: onOrderCompletedCtx_def funcType_def NumIn_def contextType_def Implements_def)
  have b: "Kind (hType onOrderCompletedMyCtx) = KFunc" "NumIn (hType onOrderCompletedMyCtx) = 2"
    "Kind (In (hType onOrderCompletedMyCtx) ! 0) \<noteq> KInterface"
    by (simp_all add: onOrderCompletedMyCtx_def funcType_def NumIn_def myCtxType_def)
  from validateHandler_first_of_two_parameters [OF a(1,2)] a(3,4)
  have 1: "\<not> (\<exists>e. validateHandler (Some onOrderCompletedCtx) = Inr e \<and> contextError e)"
    by blast
  from validateHandler_first_of_two_parameters [OF b(1,2)] b(3)
  have 2: "\<exists>e. validateHandler (Some onOrderCompletedMyCtx) = Inr e \<and> contextError e"
    by blast
  from a(1,2) b(1,2) 1 2 show ?thesis by blast
qed

section \<open>A registered handler that makes the dispatch panic\<close>

text \<open>
  C10. Let \<^verbatim>\<open>validateHandler\<close> accept the function \<open>H\<close>, let it be registered on
  the fresh registry, and let a call of it with the dispatched arguments return a
  non-nil value whose dynamic type implements the declared result type of \<open>H\<close>, as Go's
  typing demands, but not the predeclared \<^verbatim>\<open>error\<close>. Then the registration returns,
  the dispatch enters \<open>H\<close> once and panics on the type assertion to \<^verbatim>\<open>error\<close> in
  \<^verbatim>\<open>invokeHandler\<close>; and the declared result type of \<open>H\<close> is an interface type named
  \<^verbatim>\<open>error\<close> that is not the predeclared one.
\<close>

theorem validated_handler_can_panic:
  assumes "validateHandler (Some H) = Inr None"
    and "msgTypeOf (hType H) = Some (dynType t)"
    and "NumIn (hType H) = 2 \<longrightarrow> (\<exists>c. ctx = Some c \<and> Implements (dynType c) (In (hType H) ! 0))"
    and "hBody H = Some body"
    and "body (handlerArgs H ctx (Some t)) = Inr [Some r]"
    and "Implements (dynType r) (Out (hType H) ! 0)"
    and "\<not> Implements (dynType r) errorType"
  shows "fst (Handle NewDispatchMux (Some H)) = None \<and>
         DispatchContext (snd (Handle NewDispatchMux (Some H))) ctx (Some t) =
           ([(H, handlerArgs H ctx (Some t))], Inl InterfaceConversion) \<and>
         Kind (Out (hType H) ! 0) = KInterface \<and> Name (Out (hType H) ! 0) = ''error'' \<and>
         Out (hType H) ! 0 \<noteq> errorType"
proof -
  have e: "entries NewDispatchMux (dynType t) = None"
    by (simp add: entries_def NewDispatchMux_def)
  note h = Handle_fresh [OF assms(1,2) e]
  from assms(1) have "checkIn (hType H) = None"
    by (auto simp: validateHandler_ok)
  from checkIn_msgTypeOf [OF this] assms(2) have k: "Kind (dynType t) = KStruct"
    by auto
  have r: "entries (snd (Handle NewDispatchMux (Some H))) (dynType t) = Some (Some H)"
    by (simp add: h entries_def)
  have d: "DispatchContext (snd (Handle NewDispatchMux (Some H))) ctx (Some t) =
      ([(H, handlerArgs H ctx (Some t))], Inl InterfaceConversion)"
    unfolding DispatchContext_registered [OF r k] invokeHandler_valid [OF assms(1,4,2,3)]
    using assms(5,7) by simp
  from assms(1) have o: "Kind (Out (hType H) ! 0) = KInterface" "Name (Out (hType H) ! 0) = ''error''"
    by (auto simp: validateHandler_ok checkOut_ok)
  from assms(6,7) have n: "Out (hType H) ! 0 \<noteq> errorType"
    by auto
  from h d o n show ?thesis by simp
qed

text \<open>
  Such a handler exists: \<^verbatim>\<open>func(e OrderCompleted) error { return status{} }\<close> in the
  package that declares its own interface \<^verbatim>\<open>error\<close>. It passes validation and is
  registered; both dispatches of an \<^verbatim>\<open>OrderCompleted\<close> message enter it and panic.
\<close>

theorem validated_handler_can_panic_witness:
  "validateHandler (Some onOrderCompletedOwnError) = Inr None \<and>
   Handle NewDispatchMux (Some onOrderCompletedOwnError) =
     (None, \<lparr>handlers = Some [OrderCompleted \<mapsto> Some onOrderCompletedOwnError]\<rparr>) \<and>
   Out (hType onOrderCompletedOwnError) = [ownErrorType] \<and>
   hBody onOrderCompletedOwnError = Some (\<lambda>args. Inr [Some status0]) \<and>
   Implements (dynType status0) ownErrorType \<and>
   \<not> Implements (dynType status0) errorType \<and>
   DispatchContext \<lparr>handlers = Some [OrderCompleted \<mapsto> Some onOrderCompletedOwnError]\<rparr>
      (Some ctx1) (Some order123) =
        ([(onOrderCompletedOwnError, [Some order123])], Inl InterfaceConversion) \<and>
   Dispatch \<lparr>handlers = Some [OrderCompleted \<mapsto> Some onOrderCompletedOwnError]\<rparr>
      (Some order123) = ([(onOrderCompletedOwnError, [Some order123])], Inl InterfaceConversion)"
proof -
  let ?H = onOrderCompletedOwnError
  have n: "NumIn (hType ?H) = 1" "Out (hType ?H) = [ownErrorType]"
    by (simp_all add: onOrderCompletedOwnError_def funcType_def NumIn_def)
  have T: "msgTypeOf (hType ?H) = Some (dynType order123)"
    by (simp add: msgTypeOf_onOrderCompletedOwnError order123_def)
  have c: "NumIn (hType ?H) = 2 \<longrightarrow>
      (\<exists>c. c' = Some c \<and> Implements (dynType c) (In (hType ?H) ! 0))" for c'
    by (simp add: n)
  have a: "handlerArgs ?H c' (Some order123) = [Some order123]" for c'
    by (simp add: handlerArgs_def n)
  have f: "hBody ?H = Some (\<lambda>args. Inr [Some status0])"
    by (simp add: onOrderCompletedOwnError_def)
  have b: "(\<lambda>args. Inr [Some status0]) [Some order123] = Inr [Some status0]"
    by simp
  have i: "Implements (dynType status0) (Out (hType ?H) ! 0)"
    by (simp add: n ownErrorType_facts)
  have d: "DispatchContext \<lparr>handlers = Some [OrderCompleted \<mapsto> Some ?H]\<rparr> c' (Some order123)
             = ([(?H, [Some order123])], Inl InterfaceConversion)" for c'
    using validated_handler_can_panic [OF valid_onOrderCompletedOwnError T c f,
        where r = status0 and ctx = c', unfolded a, OF b i ownErrorType_facts(6)]
    by (simp add: Handle_ownError)
  from d [of "Some ctx1"] d [of Background] n f ownErrorType_facts valid_onOrderCompletedOwnError
    Handle_ownError
  show ?thesis by (simp add: Dispatch_def)
qed

end
